theory Spec2Isabelle
  imports Complex_Main
begin

section \<open>Leave tracker (app.py): data model\<close>

text \<open>
  Python's \<open>date\<close> and naive \<open>datetime\<close> values, field by field. Datetimes are
  compared lexicographically on (year, month, day, hour, minute, second, microsecond),
  which is the order of Python's \<open>datetime\<close> and of the ISO strings the store compares.
\<close>

record date =
  d_year :: int
  d_month :: int
  d_day :: int

record datetime =
  dt_year :: int
  dt_month :: int
  dt_day :: int
  dt_hour :: int
  dt_minute :: int
  dt_second :: int
  dt_microsecond :: int

definition dt_key :: "datetime \<Rightarrow> int list" where
  "dt_key t = [dt_year t, dt_month t, dt_day t, dt_hour t, dt_minute t, dt_second t,
               dt_microsecond t]"

fun lex_le :: "int list \<Rightarrow> int list \<Rightarrow> bool" where
  "lex_le [] _ = True"
| "lex_le (x # xs) [] = False"
| "lex_le (x # xs) (y # ys) = (x < y \<or> (x = y \<and> lex_le xs ys))"

definition dt_le :: "datetime \<Rightarrow> datetime \<Rightarrow> bool" where
  "dt_le a b = lex_le (dt_key a) (dt_key b)"

section \<open>Accrual: \<open>calculate_annual_leave_days\<close>\<close>

text \<open>
  \<open>as_of\<close> is optional in the source and defaults to \<open>date.today()\<close>; the clock is the
  parameter \<open>today\<close>. Python's \<open>//\<close> is floor division, as \<open>div\<close> on \<open>int\<close> is.
\<close>

definition calculate_annual_leave_days :: "date \<Rightarrow> date \<Rightarrow> date option \<Rightarrow> int" where
  "calculate_annual_leave_days today join_date as_of_opt =
     (let as_of = (case as_of_opt of None \<Rightarrow> today | Some d \<Rightarrow> d);
          months = (d_year as_of - d_year join_date) * 12 + (d_month as_of - d_month join_date);
          years = months div 12
      in if years = 0 then min months 11
         else let base = 15; additional = (years - 1) div 2
              in min (base + additional) 25)"

datatype py_exn = AttributeError | ValueError | ZeroDivisionError | OverflowError | IntegrityError

section \<open>Python numbers: \<open>int(str)\<close>, true division, \<open>round(x, 2)\<close>\<close>

text \<open>
  \<open>int(s)\<close> on a string, kept as its UTF-8 bytes. On an ASCII string: the whitespace
  characters 9 to 13 and 32 are dropped at both ends, then comes an optional sign, then
  decimal digits, single underscores allowed between digits; anything else raises
  \<open>ValueError\<close> (\<open>None\<close> here), and so does a literal of more than 640 digits that
  exceeds the interpreter's limit \<open>sys.get_int_max_str_digits()\<close>, when that limit is not 0.
  A string that is not ASCII is first rewritten with the interpreter's Unicode tables; both
  the limit and that conversion belong to the interpreter, not to the repository, and are
  parameters here.
\<close>

record interp =
  max_str_digits :: nat
  int_non_ascii :: "string \<Rightarrow> int option"

definition is_ascii :: "char \<Rightarrow> bool" where
  "is_ascii c = ((of_char c :: nat) < 128)"

definition is_space :: "char \<Rightarrow> bool" where
  "is_space c = (let n = (of_char c :: nat) in (9 \<le> n \<and> n \<le> 13) \<or> n = 32)"

definition is_digit :: "char \<Rightarrow> bool" where
  "is_digit c = (let n = (of_char c :: nat) in 48 \<le> n \<and> n \<le> 57)"

definition digit_val :: "char \<Rightarrow> int" where
  "digit_val c = int (of_char c) - 48"

fun digits_val :: "int \<Rightarrow> string \<Rightarrow> int option" where
  "digits_val acc [] = Some acc"
| "digits_val acc [c] = (if is_digit c then Some (acc * 10 + digit_val c) else None)"
| "digits_val acc (c # c' # cs) =
     (if is_digit c then digits_val (acc * 10 + digit_val c) (c' # cs)
      else if c = CHR ''_'' \<and> is_digit c' then digits_val (acc * 10 + digit_val c') cs
      else None)"

definition strip :: "string \<Rightarrow> string" where
  "strip s = rev (dropWhile is_space (rev (dropWhile is_space s)))"

definition over_limit :: "interp \<Rightarrow> string \<Rightarrow> bool" where
  "over_limit ip body =
     (let n = length (filter is_digit body)
      in 640 < n \<and> 0 < max_str_digits ip \<and> max_str_digits ip < n)"

definition py_int :: "interp \<Rightarrow> string \<Rightarrow> int option" where
  "py_int ip s =
     (if \<not> list_all is_ascii s then int_non_ascii ip s
      else case strip s of
        [] \<Rightarrow> None
      | c # cs \<Rightarrow>
          let neg = (c = CHR ''-'');
              body = (if c = CHR ''-'' \<or> c = CHR ''+'' then cs else c # cs)
          in case body of
               [] \<Rightarrow> None
             | b # bs \<Rightarrow>
                 if is_digit b \<and> \<not> over_limit ip body
                 then map_option (\<lambda>v. if neg then - v else v) (digits_val (digit_val b) bs)
                 else None)"

text \<open>
  Floats are IEEE binary64 values, kept as the exact rational they denote (\<open>-0.0\<close> and
  \<open>0.0\<close> are the same number here) or an infinity (\<open>Infinity True\<close> is the negative one).
  \<open>round_to_double\<close> is round-to-nearest, ties to even, onto 53 significant bits with
  exponents from \<open>-1074\<close>, overflowing to an infinity from \<open>2^1024\<close>.
\<close>

datatype pyfloat = Finite rat | Infinity bool

fun bitlen :: "nat \<Rightarrow> nat" where
  "bitlen n = (if n = 0 then 0 else Suc (bitlen (n div 2)))"

definition ilog2 :: "rat \<Rightarrow> int" where
  "ilog2 a = (if 1 \<le> a then int (bitlen (nat \<lfloor>a\<rfloor>)) - 1
              else - int (bitlen (nat (\<lceil>1 / a\<rceil> - 1))))"

definition pow2 :: "int \<Rightarrow> rat" where
  "pow2 k = (if 0 \<le> k then 2 ^ nat k else 1 / 2 ^ nat (- k))"

definition rne :: "rat \<Rightarrow> int" where
  "rne q = (let f = \<lfloor>q\<rfloor>; r = q - of_int f
            in if r < 1 / 2 then f else if 1 / 2 < r then f + 1
               else if even f then f else f + 1)"

definition round_to_double :: "rat \<Rightarrow> pyfloat" where
  "round_to_double q =
     (if q = 0 then Finite 0
      else let a = \<bar>q\<bar>;
               e = max (ilog2 a - 52) (- 1074);
               v = of_int (rne (a / pow2 e)) * pow2 e
           in if pow2 1024 \<le> v then Infinity (q < 0)
              else Finite (if q < 0 then - v else v))"

text \<open>\<open>a / b\<close> on ints: the correctly rounded quotient, or an exception.\<close>

definition py_truediv :: "int \<Rightarrow> int \<Rightarrow> py_exn + pyfloat" where
  "py_truediv a b =
     (if b = 0 then Inl ZeroDivisionError
      else case round_to_double (of_int a / of_int b) of
             Infinity _ \<Rightarrow> Inl OverflowError
           | Finite v \<Rightarrow> Inr (Finite v))"

text \<open>
  \<open>round(x, 2)\<close> on a float: the exact value is rounded to two decimals, ties to even,
  and the decimal result converted back to the nearest double. Infinities are returned
  as they are.
\<close>

definition py_round2 :: "pyfloat \<Rightarrow> py_exn + pyfloat" where
  "py_round2 x =
     (case x of
        Infinity s \<Rightarrow> Inr (Infinity s)
      | Finite v \<Rightarrow>
          (case round_to_double (of_int (rne (v * 100)) / 100) of
             Infinity _ \<Rightarrow> Inl OverflowError
           | Finite w \<Rightarrow> Inr (Finite w)))"

text \<open>
  \<open>g - u\<close> with \<open>g\<close> an int and \<open>u\<close> a float: \<open>g\<close> is converted to a float
  (\<open>OverflowError\<close> when too large), then subtracted in binary64.
\<close>

definition py_int_sub_float :: "int \<Rightarrow> pyfloat \<Rightarrow> py_exn + pyfloat" where
  "py_int_sub_float g u =
     (case round_to_double (of_int g) of
        Infinity _ \<Rightarrow> Inl OverflowError
      | Finite gv \<Rightarrow>
          (case u of
             Infinity s \<Rightarrow> Inr (Infinity (\<not> s))
           | Finite uv \<Rightarrow> Inr (round_to_double (gv - uv))))"

definition raise_bind :: "py_exn + 'a \<Rightarrow> ('a \<Rightarrow> py_exn + 'b) \<Rightarrow> py_exn + 'b" where
  "raise_bind m f = (case m of Inl e \<Rightarrow> Inl e | Inr x \<Rightarrow> f x)"

section \<open>Stored records and the store\<close>

text \<open>
  One record per SQLAlchemy model, one list per table, rows in insertion order. Status,
  role, actor and action are the strings the source stores. \<open>created_at\<close> is filled from
  the clock, passed to the handlers as \<open>now\<close>.
\<close>

record employee =
  emp_id :: int
  emp_name :: string
  emp_department :: string
  emp_position :: string
  emp_join_date :: date
  emp_is_active :: bool

record leave_type =
  lt_id :: int
  lt_code :: string
  lt_name_ko :: string
  lt_color_hex :: string
  lt_default_unit :: string
  lt_is_enabled :: bool

record leave_policy =
  lp_id :: int
  lp_key :: string
  lp_value :: string

record leave_request =
  lr_id :: int
  lr_employee_id :: int
  lr_leave_type_id :: int
  lr_start_dt :: datetime
  lr_end_dt :: datetime
  lr_requested_minutes :: int
  lr_reason :: "string option"
  lr_status :: string
  lr_created_at :: datetime

record approval_log =
  al_id :: int
  al_leave_request_id :: int
  al_acted_by :: string
  al_action :: string
  al_comment :: "string option"
  al_created_at :: datetime

record db =
  employees :: "employee list"
  leave_types :: "leave_type list"
  policies :: "leave_policy list"
  requests :: "leave_request list"
  logs :: "approval_log list"

text \<open>
  The integer primary key of a new row: 1 in an empty table, else the largest id plus 1
  (the rule of the store while the largest id is below \<open>2^63 - 1\<close>; the handlers never set
  an id themselves).
\<close>

definition next_id :: "int list \<Rightarrow> int" where
  "next_id ids = (case ids of [] \<Rightarrow> 1 | x # xs \<Rightarrow> fold max xs x + 1)"

text \<open>
  The store keeps signed 64-bit integers: binding any other integer to a statement raises
  \<open>OverflowError\<close>.
\<close>

definition int64 :: "int \<Rightarrow> bool" where
  "int64 i = (- (2 ^ 63) \<le> i \<and> i < 2 ^ 63)"

text \<open>The row of a table with a given primary key, if any.\<close>

definition employee_row :: "int \<Rightarrow> db \<Rightarrow> employee option" where
  "employee_row i d = find (\<lambda>e. emp_id e = i) (employees d)"

definition leave_type_row :: "int \<Rightarrow> db \<Rightarrow> leave_type option" where
  "leave_type_row i d = find (\<lambda>t. lt_id t = i) (leave_types d)"

definition request_row :: "int \<Rightarrow> db \<Rightarrow> leave_request option" where
  "request_row i d = find (\<lambda>r. lr_id r = i) (requests d)"

text \<open>
  \<open>Model.query.get(id)\<close>: the id is bound to a SELECT, which raises for an id outside the
  64-bit range and returns the row, or \<open>None\<close>, otherwise.
\<close>

definition query_get :: "int \<Rightarrow> 'a option \<Rightarrow> py_exn + 'a option" where
  "query_get i row = (if int64 i then Inr row else Inl OverflowError)"

definition get_employee :: "int \<Rightarrow> db \<Rightarrow> py_exn + employee option" where
  "get_employee i d = query_get i (employee_row i d)"

definition get_leave_type :: "int \<Rightarrow> db \<Rightarrow> py_exn + leave_type option" where
  "get_leave_type i d = query_get i (leave_type_row i d)"

definition get_request :: "int \<Rightarrow> db \<Rightarrow> py_exn + leave_request option" where
  "get_request i d = query_get i (request_row i d)"

text \<open>Assigning \<open>r.status\<close> updates the row whose primary key is \<open>r.id\<close>.\<close>

definition set_status :: "int \<Rightarrow> string \<Rightarrow> leave_request list \<Rightarrow> leave_request list" where
  "set_status i st rs = map (\<lambda>r. if lr_id r = i then r\<lparr>lr_status := st\<rparr> else r) rs"

definition add_log :: "datetime \<Rightarrow> int \<Rightarrow> string \<Rightarrow> string \<Rightarrow> string option \<Rightarrow> approval_log list
    \<Rightarrow> approval_log list" where
  "add_log now rid actor act com ls =
     ls @ [\<lparr>al_id = next_id (map al_id ls), al_leave_request_id = rid, al_acted_by = actor,
            al_action = act, al_comment = com, al_created_at = now\<rparr>]"

text \<open>
  Results. A handler either raises (the left summand, an uncaught Python exception) or
  returns a response: the JSON bodies \<open>{'success': True}\<close>, \<open>{'success': True, 'id': i}\<close>,
  \<open>{'error': msg}\<close> with its HTTP status, or a JSON document of its own.
  Every handler also returns the list of store states it committed, in order
  (one per \<open>db.session.commit()\<close>); \<open>final\<close> is the store it leaves behind.
\<close>

record summary =
  sm_year :: int
  sm_workday_minutes :: int
  sm_annual_granted :: int
  sm_annual_used :: pyfloat
  sm_annual_remaining :: pyfloat
  sm_sick_granted :: int
  sm_sick_used :: pyfloat
  sm_sick_remaining :: pyfloat
  sm_event_used :: pyfloat
  sm_public_used :: pyfloat
  sm_pending_count :: nat
  sm_rejected_count :: nat

datatype response = Success | SuccessId int | Error string int | Json summary

definition final :: "db \<Rightarrow> db list \<Rightarrow> db" where
  "final d cs = (if cs = [] then d else last cs)"

section \<open>Policy helpers: \<open>DEFAULTS\<close>, \<open>get_policy\<close>\<close>

definition DEFAULTS :: "(string \<times> string) list" where
  "DEFAULTS = [(''workday_minutes'', ''480''), (''sick_default_days'', ''10''),
               (''admin_pin'', ''1234'')]"

text \<open>
  The value and the committed states (none when the key is stored, one when the default
  is created). A model instance is always truthy, so \<open>if p\<close> is "a row was found".
\<close>

definition get_policy :: "string \<Rightarrow> db \<Rightarrow> string \<times> db list" where
  "get_policy key d =
     (case find (\<lambda>p. lp_key p = key) (policies d) of
        Some p \<Rightarrow> (lp_value p, [])
      | None \<Rightarrow>
          let v = (case map_of DEFAULTS key of Some x \<Rightarrow> x | None \<Rightarrow> []);
              p = \<lparr>lp_id = next_id (map lp_id (policies d)), lp_key = key, lp_value = v\<rparr>
          in (v, [d\<lparr>policies := policies d @ [p]\<rparr>]))"

section \<open>Auth: the session\<close>

record session =
  sess_role :: "string option"
  sess_employee_id :: "int option"

definition current_role :: "session \<Rightarrow> string option" where
  "current_role s = sess_role s"

definition current_employee_id :: "session \<Rightarrow> int option" where
  "current_employee_id s = sess_employee_id s"

text \<open>\<open>not current_employee_id()\<close> holds for a missing id and for 0.\<close>

definition require_employee :: "session \<Rightarrow> bool" where
  "require_employee s =
     (\<not> (current_role s \<noteq> Some ''EMPLOYEE''
         \<or> (case current_employee_id s of None \<Rightarrow> True | Some i \<Rightarrow> i = 0)))"

definition require_admin :: "session \<Rightarrow> bool" where
  "require_admin s = (current_role s = Some ''ADMIN'')"

section \<open>Request lifecycle handlers\<close>

text \<open>
  \<open>api_create_request\<close> reads its payload with \<open>int(...)\<close> and
  \<open>datetime.fromisoformat(...)\<close> before it touches the store; the model starts from the
  converted values. The first commit inserts the request: it raises \<open>OverflowError\<close>, and
  stores nothing, when the employee id or the minutes do not fit 64 bits.
\<close>

record create_payload =
  cp_leave_type_id :: int
  cp_start_dt :: datetime
  cp_end_dt :: datetime
  cp_requested_minutes :: int
  cp_reason :: "string option"

definition api_create_request :: "datetime \<Rightarrow> session \<Rightarrow> create_payload \<Rightarrow> db
    \<Rightarrow> (py_exn + response) \<times> db list" where
  "api_create_request now s payload d =
     (if \<not> require_employee s then (Inr (Error ''unauthorized'' 401), [])
      else case get_leave_type (cp_leave_type_id payload) d of
        Inl ex \<Rightarrow> (Inl ex, [])
      | Inr None \<Rightarrow> (Inr (Error ''invalid leave type'' 400), [])
      | Inr (Some lt) \<Rightarrow>
          (case current_employee_id s of
             None \<Rightarrow> (Inl IntegrityError, [])
           | Some eid \<Rightarrow>
               if \<not> int64 eid \<or> \<not> int64 (cp_requested_minutes payload)
               then (Inl OverflowError, [])
               else
               let r = \<lparr>lr_id = next_id (map lr_id (requests d)),
                        lr_employee_id = eid,
                        lr_leave_type_id = cp_leave_type_id payload,
                        lr_start_dt = cp_start_dt payload,
                        lr_end_dt = cp_end_dt payload,
                        lr_requested_minutes = cp_requested_minutes payload,
                        lr_reason = cp_reason payload,
                        lr_status = ''PENDING'',
                        lr_created_at = now\<rparr>;
                   d1 = d\<lparr>requests := requests d @ [r]\<rparr>;
                   d2 = d1\<lparr>logs := add_log now (lr_id r) ''EMPLOYEE'' ''CREATE'' None (logs d1)\<rparr>
               in (Inr (SuccessId (lr_id r)), [d1, d2])))"

definition api_cancel_request :: "datetime \<Rightarrow> session \<Rightarrow> int \<Rightarrow> db
    \<Rightarrow> (py_exn + response) \<times> db list" where
  "api_cancel_request now s req_id d =
     (if \<not> require_employee s then (Inr (Error ''unauthorized'' 401), [])
      else case get_request req_id d of
        Inl ex \<Rightarrow> (Inl ex, [])
      | Inr None \<Rightarrow> (Inr (Error ''not found'' 404), [])
      | Inr (Some r) \<Rightarrow>
          if Some (lr_employee_id r) \<noteq> current_employee_id s
          then (Inr (Error ''not found'' 404), [])
          else if lr_status r \<notin> {''PENDING'', ''APPROVED''}
          then (Inr (Error ''cannot cancel'' 400), [])
          else (Inr Success,
                [d\<lparr>requests := set_status (lr_id r) ''CANCELLED'' (requests d),
                   logs := add_log now (lr_id r) ''EMPLOYEE'' ''CANCEL'' None (logs d)\<rparr>]))"

definition api_admin_approve :: "datetime \<Rightarrow> session \<Rightarrow> int \<Rightarrow> db
    \<Rightarrow> (py_exn + response) \<times> db list" where
  "api_admin_approve now s req_id d =
     (if \<not> require_admin s then (Inr (Error ''unauthorized'' 401), [])
      else case get_request req_id d of
        Inl ex \<Rightarrow> (Inl ex, [])
      | Inr None \<Rightarrow> (Inr (Error ''not found or not pending'' 404), [])
      | Inr (Some r) \<Rightarrow>
          if lr_status r \<noteq> ''PENDING''
          then (Inr (Error ''not found or not pending'' 404), [])
          else (Inr Success,
                [d\<lparr>requests := set_status (lr_id r) ''APPROVED'' (requests d),
                   logs := add_log now (lr_id r) ''ADMIN'' ''APPROVE'' None (logs d)\<rparr>]))"

text \<open>
  \<open>comment\<close> is \<open>payload.get('comment')\<close>: \<open>None\<close> when absent, and \<open>not comment\<close> holds
  for \<open>None\<close> and for the empty string.
\<close>

definition api_admin_reject :: "datetime \<Rightarrow> session \<Rightarrow> int \<Rightarrow> string option \<Rightarrow> db
    \<Rightarrow> (py_exn + response) \<times> db list" where
  "api_admin_reject now s req_id comment d =
     (if \<not> require_admin s then (Inr (Error ''unauthorized'' 401), [])
      else if comment = None \<or> comment = Some []
      then (Inr (Error ''comment required'' 400), [])
      else case get_request req_id d of
        Inl ex \<Rightarrow> (Inl ex, [])
      | Inr None \<Rightarrow> (Inr (Error ''not found or not pending'' 404), [])
      | Inr (Some r) \<Rightarrow>
          if lr_status r \<noteq> ''PENDING''
          then (Inr (Error ''not found or not pending'' 404), [])
          else (Inr Success,
                [d\<lparr>requests := set_status (lr_id r) ''REJECTED'' (requests d),
                   logs := add_log now (lr_id r) ''ADMIN'' ''REJECT'' comment (logs d)\<rparr>]))"

section \<open>Leave ledger: \<open>api_my_summary\<close>\<close>

text \<open>
  The handler reads \<open>year\<close> with \<open>int(...)\<close> from the query string; the model starts from
  the converted value. \<open>date(year, 12, 31)\<close> and \<open>datetime(year, 1, 1)\<close> raise
  \<open>OverflowError\<close> for a year that does not fit a C \<open>int\<close> of 32 bits, and
  \<open>ValueError\<close> for any other year outside 1 to 9999. \<open>r.leave_type\<close> is \<open>None\<close> when the
  referenced row is missing, and reading \<open>.code\<close> from it raises \<open>AttributeError\<close>, as
  reading \<open>emp.join_date\<close> from a missing employee does. The leave type of a request is
  loaded by the id stored in the row.
\<close>

definition c_int :: "int \<Rightarrow> bool" where
  "c_int i = (- (2 ^ 31) \<le> i \<and> i < 2 ^ 31)"

definition policy_or :: "string \<Rightarrow> string \<Rightarrow> string" where
  "policy_or v dflt = (if v = [] then dflt else v)"

definition year_start :: "int \<Rightarrow> datetime" where
  "year_start year = \<lparr>dt_year = year, dt_month = 1, dt_day = 1, dt_hour = 0, dt_minute = 0,
                       dt_second = 0, dt_microsecond = 0\<rparr>"

definition year_end :: "int \<Rightarrow> datetime" where
  "year_end year = \<lparr>dt_year = year, dt_month = 12, dt_day = 31, dt_hour = 23, dt_minute = 59,
                     dt_second = 59, dt_microsecond = 0\<rparr>"

definition approved_in_year :: "int \<Rightarrow> int \<Rightarrow> leave_request \<Rightarrow> bool" where
  "approved_in_year eid year r =
     (lr_employee_id r = eid \<and> lr_status r = ''APPROVED''
      \<and> dt_le (year_start year) (lr_start_dt r) \<and> dt_le (lr_start_dt r) (year_end year))"

definition dict_get :: "(string \<rightharpoonup> int) \<Rightarrow> string \<Rightarrow> int \<Rightarrow> int" where
  "dict_get u k dflt = (case u k of None \<Rightarrow> dflt | Some v \<Rightarrow> v)"

definition used_init :: "string \<rightharpoonup> int" where
  "used_init = [''ANNUAL'' \<mapsto> 0, ''SICK'' \<mapsto> 0, ''EVENT'' \<mapsto> 0, ''PUBLIC'' \<mapsto> 0]"

fun used_loop :: "db \<Rightarrow> leave_request list \<Rightarrow> (string \<rightharpoonup> int) \<Rightarrow> py_exn + (string \<rightharpoonup> int)" where
  "used_loop d [] u = Inr u"
| "used_loop d (r # rs) u =
     (case leave_type_row (lr_leave_type_id r) d of
        None \<Rightarrow> Inl AttributeError
      | Some t \<Rightarrow>
          used_loop d rs (u(lt_code t \<mapsto> dict_get u (lt_code t) 0 + lr_requested_minutes r)))"

definition minutes_to_days :: "int \<Rightarrow> int \<Rightarrow> py_exn + pyfloat" where
  "minutes_to_days workday_minutes m = raise_bind (py_truediv m workday_minutes) py_round2"

definition api_my_summary :: "interp \<Rightarrow> date \<Rightarrow> session \<Rightarrow> int \<Rightarrow> db
    \<Rightarrow> (py_exn + response) \<times> db list" where
  "api_my_summary ip today s year d =
     (if \<not> require_employee s then (Inr (Error ''unauthorized'' 401), [])
      else case (case current_employee_id s of None \<Rightarrow> Inr None | Some i \<Rightarrow> get_employee i d) of
        Inl ex \<Rightarrow> (Inl ex, [])
      | Inr emp \<Rightarrow>
        let (wv, c1) = get_policy ''workday_minutes'' d;
            d1 = final d c1
        in case py_int ip (policy_or wv ''480'') of
             None \<Rightarrow> (Inl ValueError, c1)
           | Some workday_minutes \<Rightarrow>
        (case emp of
           None \<Rightarrow> (Inl AttributeError, c1)
         | Some e \<Rightarrow>
        if \<not> c_int year then (Inl OverflowError, c1)
        else if year < 1 \<or> 9999 < year then (Inl ValueError, c1)
        else
          let annual_granted_days =
                calculate_annual_leave_days today (emp_join_date e)
                  (Some \<lparr>d_year = year, d_month = 12, d_day = 31\<rparr>);
              (sv, c2) = get_policy ''sick_default_days'' d1;
              d2 = final d1 c2;
              cs = c1 @ c2
          in case py_int ip (policy_or sv ''10'') of
               None \<Rightarrow> (Inl ValueError, cs)
             | Some sick_granted_days \<Rightarrow>
          let approved = filter (approved_in_year (emp_id e) year) (requests d2);
              pending_count =
                length (filter (\<lambda>r. lr_employee_id r = emp_id e \<and> lr_status r = ''PENDING'')
                          (requests d2));
              rejected_count =
                length (filter (\<lambda>r. lr_employee_id r = emp_id e \<and> lr_status r = ''REJECTED'')
                          (requests d2))
          in (raise_bind (used_loop d2 approved used_init) (\<lambda>used_by_code.
              raise_bind (minutes_to_days workday_minutes (dict_get used_by_code ''ANNUAL'' 0))
                (\<lambda>annual_used_days.
              raise_bind (minutes_to_days workday_minutes (dict_get used_by_code ''SICK'' 0))
                (\<lambda>sick_used_days.
              raise_bind (minutes_to_days workday_minutes (dict_get used_by_code ''EVENT'' 0))
                (\<lambda>event_used_days.
              raise_bind (minutes_to_days workday_minutes (dict_get used_by_code ''PUBLIC'' 0))
                (\<lambda>public_used_days.
              raise_bind (raise_bind (py_int_sub_float annual_granted_days annual_used_days)
                            py_round2) (\<lambda>annual_remaining.
              raise_bind (raise_bind (py_int_sub_float sick_granted_days sick_used_days)
                            py_round2) (\<lambda>sick_remaining.
              Inr (Json \<lparr>sm_year = year,
                         sm_workday_minutes = workday_minutes,
                         sm_annual_granted = annual_granted_days,
                         sm_annual_used = annual_used_days,
                         sm_annual_remaining = annual_remaining,
                         sm_sick_granted = sick_granted_days,
                         sm_sick_used = sick_used_days,
                         sm_sick_remaining = sick_remaining,
                         sm_event_used = event_used_days,
                         sm_public_used = public_used_days,
                         sm_pending_count = pending_count,
                         sm_rejected_count = rejected_count\<rparr>)))))))), cs)))"

section \<open>Sequences of lifecycle calls\<close>

datatype op =
    Create datetime session create_payload
  | Cancel datetime session int
  | Approve datetime session int
  | Reject datetime session int "string option"

fun run_op :: "op \<Rightarrow> db \<Rightarrow> db" where
  "run_op (Create now s p) d = final d (snd (api_create_request now s p d))"
| "run_op (Cancel now s i) d = final d (snd (api_cancel_request now s i d))"
| "run_op (Approve now s i) d = final d (snd (api_admin_approve now s i d))"
| "run_op (Reject now s i c) d = final d (snd (api_admin_reject now s i c d))"

definition run_ops :: "op list \<Rightarrow> db \<Rightarrow> db" where
  "run_ops ops d = fold run_op ops d"

section \<open>The ledger as the specification words it\<close>

text \<open>
  The minutes of an employee's APPROVED requests whose \<open>start_dt\<close> lies in the window of
  the year, from 1 January 00:00:00 to 31 December 23:59:59, for one leave-type code.
\<close>

definition leave_code :: "db \<Rightarrow> leave_request \<Rightarrow> string option" where
  "leave_code d r = map_option lt_code (leave_type_row (lr_leave_type_id r) d)"

definition approved_minutes :: "int \<Rightarrow> int \<Rightarrow> string \<Rightarrow> db \<Rightarrow> int" where
  "approved_minutes eid year c d =
     sum_list (map lr_requested_minutes
       (filter (\<lambda>r. approved_in_year eid year r \<and> leave_code d r = Some c) (requests d)))"

section \<open>Observations on the store\<close>

definition status_of :: "int \<Rightarrow> db \<Rightarrow> string option" where
  "status_of rid d = map_option lr_status (request_row rid d)"

definition is_pending :: "int \<Rightarrow> db \<Rightarrow> bool" where
  "is_pending rid d = (status_of rid d = Some ''PENDING'')"

definition has_log :: "int \<Rightarrow> string \<Rightarrow> db \<Rightarrow> bool" where
  "has_log rid act d =
     list_ex (\<lambda>l. al_leave_request_id l = rid \<and> al_action l = act) (logs d)"

definition policy_rows :: "string \<Rightarrow> db \<Rightarrow> leave_policy list" where
  "policy_rows key d = filter (\<lambda>p. lp_key p = key) (policies d)"

section \<open>A sample store\<close>

text \<open>
  Three employees, the four seeded leave types and a fifth, disabled one, no policy row
  yet, and one pending request of employee 3 with its CREATE entry.
\<close>

definition mk_dt :: "int \<Rightarrow> int \<Rightarrow> int \<Rightarrow> int \<Rightarrow> datetime" where
  "mk_dt y m dd h = \<lparr>dt_year = y, dt_month = m, dt_day = dd, dt_hour = h, dt_minute = 0,
                     dt_second = 0, dt_microsecond = 0\<rparr>"

definition sample_request :: leave_request where
  "sample_request = \<lparr>lr_id = 1, lr_employee_id = 3, lr_leave_type_id = 1,
     lr_start_dt = mk_dt 2025 6 10 9, lr_end_dt = mk_dt 2025 6 10 18,
     lr_requested_minutes = 480, lr_reason = None, lr_status = ''PENDING'',
     lr_created_at = mk_dt 2025 6 1 12\<rparr>"

definition sample_db :: db where
  "sample_db = \<lparr>
     employees =
       [\<lparr>emp_id = 1, emp_name = ''Kim'', emp_department = ''Sales'', emp_position = ''Staff'',
         emp_join_date = \<lparr>d_year = 2023, d_month = 3, d_day = 2\<rparr>, emp_is_active = True\<rparr>,
        \<lparr>emp_id = 2, emp_name = ''Lee'', emp_department = ''Dev'', emp_position = ''Staff'',
         emp_join_date = \<lparr>d_year = 2025, d_month = 2, d_day = 10\<rparr>, emp_is_active = True\<rparr>,
        \<lparr>emp_id = 3, emp_name = ''Park'', emp_department = ''HR'', emp_position = ''Manager'',
         emp_join_date = \<lparr>d_year = 2021, d_month = 7, d_day = 1\<rparr>, emp_is_active = True\<rparr>],
     leave_types =
       [\<lparr>lt_id = 1, lt_code = ''ANNUAL'', lt_name_ko = ''annual'', lt_color_hex = ''#4F46E5'',
         lt_default_unit = ''day'', lt_is_enabled = True\<rparr>,
        \<lparr>lt_id = 2, lt_code = ''SICK'', lt_name_ko = ''sick'', lt_color_hex = ''#059669'',
         lt_default_unit = ''day'', lt_is_enabled = True\<rparr>,
        \<lparr>lt_id = 3, lt_code = ''EVENT'', lt_name_ko = ''event'', lt_color_hex = ''#7C3AED'',
         lt_default_unit = ''day'', lt_is_enabled = True\<rparr>,
        \<lparr>lt_id = 4, lt_code = ''PUBLIC'', lt_name_ko = ''public'', lt_color_hex = ''#F59E0B'',
         lt_default_unit = ''day'', lt_is_enabled = True\<rparr>,
        \<lparr>lt_id = 5, lt_code = ''UNPAID'', lt_name_ko = ''unpaid'', lt_color_hex = ''#000000'',
         lt_default_unit = ''day'', lt_is_enabled = False\<rparr>],
     policies = [],
     requests = [sample_request],
     logs = [\<lparr>al_id = 1, al_leave_request_id = 1, al_acted_by = ''EMPLOYEE'',
              al_action = ''CREATE'', al_comment = None, al_created_at = mk_dt 2025 6 1 12\<rparr>]\<rparr>"

definition sample_admin :: session where
  "sample_admin = \<lparr>sess_role = Some ''ADMIN'', sess_employee_id = None\<rparr>"

definition sample_employee :: "int \<Rightarrow> session" where
  "sample_employee i = \<lparr>sess_role = Some ''EMPLOYEE'', sess_employee_id = Some i\<rparr>"

definition sample_now :: datetime where
  "sample_now = mk_dt 2025 6 2 8"

definition sample_payload :: "int \<Rightarrow> datetime \<Rightarrow> datetime \<Rightarrow> int \<Rightarrow> create_payload" where
  "sample_payload t a b m = \<lparr>cp_leave_type_id = t, cp_start_dt = a, cp_end_dt = b,
     cp_requested_minutes = m, cp_reason = None\<rparr>"

definition sample_rejected :: db where
  "sample_rejected = run_ops [Reject sample_now sample_admin 1 (Some ''busy'')] sample_db"

definition sample_approved :: db where
  "sample_approved = run_ops [Approve sample_now sample_admin 1] sample_db"

definition mk_request :: "int \<Rightarrow> int \<Rightarrow> int \<Rightarrow> datetime \<Rightarrow> int \<Rightarrow> string \<Rightarrow> leave_request" where
  "mk_request i e t a m st = \<lparr>lr_id = i, lr_employee_id = e, lr_leave_type_id = t,
     lr_start_dt = a, lr_end_dt = a, lr_requested_minutes = m, lr_reason = None,
     lr_status = st, lr_created_at = mk_dt 2024 1 1 0\<rparr>"

definition sample_ledger :: db where
  "sample_ledger = sample_db\<lparr>
     policies := [\<lparr>lp_id = 1, lp_key = ''workday_minutes'', lp_value = ''480''\<rparr>,
                  \<lparr>lp_id = 2, lp_key = ''sick_default_days'', lp_value = ''10''\<rparr>],
     requests := [mk_request 1 2 1 (mk_dt 2025 3 3 9) 5760 ''APPROVED'',
                  mk_request 2 2 2 (mk_dt 2025 5 5 9) 480 ''APPROVED'',
                  mk_request 3 2 1 (mk_dt 2024 12 30 9) 480 ''APPROVED'',
                  mk_request 4 2 1 (mk_dt 2025 8 1 9) 480 ''PENDING'',
                  mk_request 5 3 1 (mk_dt 2025 6 10 9) 480 ''APPROVED'',
                  mk_request 6 2 3 (mk_dt 2025 9 9 9) 12 ''APPROVED''],
     logs := []\<rparr>"

text \<open>
  An interpreter with the default digit limit. Every string of the samples is ASCII, so its
  conversion of other strings is never consulted.
\<close>

definition sample_interp :: interp where
  "sample_interp = \<lparr>max_str_digits = 4300, int_non_ascii = (\<lambda>s. None)\<rparr>"

definition sample_today :: date where
  "sample_today = \<lparr>d_year = 2026, d_month = 1, d_day = 15\<rparr>"

definition sample_summary :: summary where
  "sample_summary = \<lparr>sm_year = 2025, sm_workday_minutes = 480,
     sm_annual_granted = 10, sm_annual_used = Finite 12, sm_annual_remaining = Finite (- 2),
     sm_sick_granted = 10, sm_sick_used = Finite 1, sm_sick_remaining = Finite 9,
     sm_event_used = Finite (1080863910568919 / 36028797018963968),
     sm_public_used = Finite 0, sm_pending_count = 1, sm_rejected_count = 0\<rparr>"

definition sample_blank :: db where
  "sample_blank = sample_db\<lparr>
     policies := [\<lparr>lp_id = 1, lp_key = ''workday_minutes'', lp_value = []\<rparr>,
                  \<lparr>lp_id = 2, lp_key = ''sick_default_days'', lp_value = ''10''\<rparr>]\<rparr>"

definition sample_zero :: db where
  "sample_zero = sample_db\<lparr>
     policies := [\<lparr>lp_id = 1, lp_key = ''workday_minutes'', lp_value = ''0''\<rparr>,
                  \<lparr>lp_id = 2, lp_key = ''sick_default_days'', lp_value = ''10''\<rparr>]\<rparr>"

definition sample_words :: db where
  "sample_words = sample_db\<lparr>
     policies := [\<lparr>lp_id = 1, lp_key = ''workday_minutes'', lp_value = ''eight''\<rparr>]\<rparr>"

definition sample_blank_summary :: summary where
  "sample_blank_summary = \<lparr>sm_year = 2025, sm_workday_minutes = 480,
     sm_annual_granted = 16, sm_annual_used = Finite 0, sm_annual_remaining = Finite 16,
     sm_sick_granted = 10, sm_sick_used = Finite 0, sm_sick_remaining = Finite 10,
     sm_event_used = Finite 0, sm_public_used = Finite 0,
     sm_pending_count = 1, sm_rejected_count = 0\<rparr>"

text \<open>A call crashed when it raised instead of returning a response.\<close>

definition crashed :: "(py_exn + response) \<times> db list \<Rightarrow> bool" where
  "crashed res = (case fst res of Inl e \<Rightarrow> True | Inr r \<Rightarrow> False)"

text \<open>Every request refers to a leave type of the store.\<close>

definition types_known :: "db \<Rightarrow> bool" where
  "types_known d = list_all (\<lambda>r. leave_type_row (lr_leave_type_id r) d \<noteq> None) (requests d)"

definition late_request :: leave_request where
  "late_request = mk_request 1 3 1
     \<lparr>dt_year = 2025, dt_month = 12, dt_day = 31, dt_hour = 23, dt_minute = 59, dt_second = 59,
      dt_microsecond = 500000\<rparr> 480 ''APPROVED''"

definition sample_late :: db where
  "sample_late = sample_db\<lparr>
     policies := [\<lparr>lp_id = 1, lp_key = ''workday_minutes'', lp_value = ''480''\<rparr>,
                  \<lparr>lp_id = 2, lp_key = ''sick_default_days'', lp_value = ''10''\<rparr>],
     requests := [late_request],
     logs := []\<rparr>"

definition sample_late_summary :: summary where
  "sample_late_summary = \<lparr>sm_year = 2025, sm_workday_minutes = 480,
     sm_annual_granted = 16, sm_annual_used = Finite 0, sm_annual_remaining = Finite 16,
     sm_sick_granted = 10, sm_sick_used = Finite 0, sm_sick_remaining = Finite 10,
     sm_event_used = Finite 0, sm_public_used = Finite 0,
     sm_pending_count = 0, sm_rejected_count = 0\<rparr>"

section \<open>Accrual: the tenure table\<close>

text \<open>
  C4. With \<open>months\<close> the calendar-month difference of the two dates (day of month ignored)
  and \<open>years = months div 12\<close>: the entitlement is \<open>min months 11\<close> when \<open>years = 0\<close> and
  \<open>min (15 + (years - 1) div 2) 25\<close> otherwise; one full year gives 15 days, three 16,
  five 17, and 21 or more years give the cap 25.
\<close>

theorem annual_entitlement_table:
  fixes join_date as_of today :: date
  defines "months \<equiv> (d_year as_of - d_year join_date) * 12 + (d_month as_of - d_month join_date)"
  defines "years \<equiv> months div 12"
  defines "days \<equiv> calculate_annual_leave_days today join_date (Some as_of)"
  shows "(years = 0 \<longrightarrow> days = min months 11)
       \<and> (years \<noteq> 0 \<longrightarrow> days = min (15 + (years - 1) div 2) 25)
       \<and> (years = 1 \<longrightarrow> days = 15)
       \<and> (years = 3 \<longrightarrow> days = 16)
       \<and> (years = 5 \<longrightarrow> days = 17)
       \<and> (21 \<le> years \<longrightarrow> days = 25)"
proof -
  have d: "days = (if years = 0 then min months 11 else min (15 + (years - 1) div 2) 25)"
    unfolding months_def years_def days_def calculate_annual_leave_days_def Let_def by simp
  have cap: "21 \<le> years \<Longrightarrow> 25 \<le> 15 + (years - 1) div 2" by linarith
  show ?thesis using cap by (simp add: d)
qed

theorem annual_entitlement_table_witness:
  "calculate_annual_leave_days \<lparr>d_year = 2030, d_month = 1, d_day = 1\<rparr>
     \<lparr>d_year = 2021, d_month = 7, d_day = 1\<rparr> (Some \<lparr>d_year = 2025, d_month = 12, d_day = 31\<rparr>) = 16
   \<and> calculate_annual_leave_days \<lparr>d_year = 2030, d_month = 1, d_day = 1\<rparr>
     \<lparr>d_year = 2025, d_month = 2, d_day = 10\<rparr> (Some \<lparr>d_year = 2025, d_month = 8, d_day = 1\<rparr>) = 6
   \<and> calculate_annual_leave_days \<lparr>d_year = 2030, d_month = 1, d_day = 1\<rparr>
     \<lparr>d_year = 2000, d_month = 1, d_day = 1\<rparr> (Some \<lparr>d_year = 2025, d_month = 1, d_day = 1\<rparr>) = 25"
  using annual_entitlement_table [of "\<lparr>d_year = 2025, d_month = 12, d_day = 31\<rparr>"
          "\<lparr>d_year = 2021, d_month = 7, d_day = 1\<rparr>" "\<lparr>d_year = 2030, d_month = 1, d_day = 1\<rparr>"]
        annual_entitlement_table [of "\<lparr>d_year = 2025, d_month = 8, d_day = 1\<rparr>"
          "\<lparr>d_year = 2025, d_month = 2, d_day = 10\<rparr>" "\<lparr>d_year = 2030, d_month = 1, d_day = 1\<rparr>"]
        annual_entitlement_table [of "\<lparr>d_year = 2025, d_month = 1, d_day = 1\<rparr>"
          "\<lparr>d_year = 2000, d_month = 1, d_day = 1\<rparr>" "\<lparr>d_year = 2030, d_month = 1, d_day = 1\<rparr>"]
  by simp

section \<open>Lookups in the tables\<close>

lemma find_append_last:
  "find P (xs @ [x]) = (case find P xs of Some y \<Rightarrow> Some y | None \<Rightarrow> if P x then Some x else None)"
  by (induction xs) auto

lemma find_set_status:
  "find (\<lambda>r. lr_id r = i) (set_status j st rs) =
     map_option (\<lambda>r. if lr_id r = j then r\<lparr>lr_status := st\<rparr> else r) (find (\<lambda>r. lr_id r = i) rs)"
  by (induction rs) (auto simp: set_status_def)

lemma find_id: "find (\<lambda>r. lr_id r = i) rs = Some r \<Longrightarrow> lr_id r = i"
  by (induction rs) (auto split: if_splits)

lemma fold_max_ge: "(x::int) \<le> fold max xs x"
  by (induction xs arbitrary: x) (auto intro: order_trans [OF max.cobounded2])

lemma fold_max_mem: "(y::int) \<in> set xs \<Longrightarrow> y \<le> fold max xs x"
proof (induction xs arbitrary: x)
  case Nil then show ?case by simp
next
  case (Cons a xs)
  show ?case
  proof (cases "y = a")
    case True
    have "a \<le> max a x" by simp
    also have "\<dots> \<le> fold max xs (max a x)" by (rule fold_max_ge)
    finally show ?thesis using True by simp
  next
    case False
    with Cons show ?thesis by simp
  qed
qed

lemma next_id_fresh: "y \<in> set ids \<Longrightarrow> y < next_id ids"
proof (cases ids)
  case Nil then show "y \<in> set ids \<Longrightarrow> ?thesis" by simp
next
  case (Cons x xs)
  assume "y \<in> set ids"
  then have "y = x \<or> y \<in> set xs" using Cons by auto
  then have "y \<le> fold max xs x" using fold_max_ge [of x xs] fold_max_mem [of y xs x] by auto
  then show ?thesis using Cons by (simp add: next_id_def)
qed

lemma find_fresh: "find (\<lambda>r. lr_id r = next_id (map lr_id rs)) rs = None"
proof -
  have "\<forall>r \<in> set rs. lr_id r \<noteq> next_id (map lr_id rs)"
    using next_id_fresh [of _ "map lr_id rs"] by fastforce
  then show ?thesis by (simp add: find_None_iff)
qed

section \<open>Approve and reject\<close>

lemmas sample_defs = sample_db_def sample_request_def sample_admin_def sample_employee_def
  sample_now_def sample_payload_def mk_dt_def

lemmas auth_defs = require_admin_def require_employee_def current_role_def
  current_employee_id_def

lemmas get_defs = get_request_def get_leave_type_def get_employee_def query_get_def

lemmas row_defs = request_row_def leave_type_row_def employee_row_def

lemma request_row_id: "request_row i d = Some r \<Longrightarrow> lr_id r = i"
  unfolding request_row_def by (rule find_id)

lemma status_of_set_status:
  "status_of rid (d\<lparr>requests := set_status j st (requests d), logs := ls\<rparr>) =
     (if rid = j then map_option (\<lambda>_. st) (status_of rid d) else status_of rid d)"
proof (cases "find (\<lambda>r. lr_id r = rid) (requests d)")
  case None
  then show ?thesis by (auto simp: status_of_def request_row_def find_set_status)
next
  case (Some r)
  then have "lr_id r = rid" by (rule find_id)
  with Some show ?thesis by (auto simp: status_of_def request_row_def find_set_status)
qed

text \<open>What the two handlers do with a request id outside the 64-bit range.\<close>

lemma approve_reject_overflow:
  assumes "require_admin s" and "\<not> int64 rid"
  shows "api_admin_approve now s rid d = (Inl OverflowError, [])"
    and "comment \<noteq> None \<Longrightarrow> comment \<noteq> Some []
           \<Longrightarrow> api_admin_reject now s rid comment d = (Inl OverflowError, [])"
  using assms by (simp_all add: api_admin_approve_def api_admin_reject_def get_defs)





section \<open>Create\<close>


text \<open>An integer outside the 64-bit range makes the call raise, and nothing is stored.\<close>

lemma create_request_overflow:
  assumes "require_employee s"
  shows "\<not> int64 (cp_leave_type_id p) \<Longrightarrow> api_create_request now s p d = (Inl OverflowError, [])"
    and "get_leave_type (cp_leave_type_id p) d = Inr (Some lt) \<Longrightarrow> current_employee_id s = Some eid
           \<Longrightarrow> \<not> int64 eid \<or> \<not> int64 (cp_requested_minutes p)
           \<Longrightarrow> api_create_request now s p d = (Inl OverflowError, [])"
  using assms by (auto simp: api_create_request_def get_defs)




section \<open>Status change and log entry\<close>

text \<open>
  C5, where the code departs from it. A successful \<open>api_create_request\<close> commits twice:
  the first committed state holds the new request in status PENDING and the log table as it
  was, with no CREATE entry for the request; only the second state holds the entry.
\<close>

theorem create_request_commits_request_before_log:
  assumes "require_employee s" and "get_leave_type (cp_leave_type_id p) d = Inr (Some lt)"
    and "current_employee_id s = Some eid" and "int64 eid"
    and "int64 (cp_requested_minutes p)"
  shows "\<exists>rid d1 d2.
           api_create_request now s p d = (Inr (SuccessId rid), [d1, d2])
         \<and> request_row rid d = None
         \<and> status_of rid d1 = Some ''PENDING''
         \<and> logs d1 = logs d
         \<and> requests d2 = requests d1
         \<and> has_log rid ''CREATE'' d2"
  using assms
  by (auto simp: api_create_request_def Let_def request_row_def find_append_last find_fresh
        status_of_def has_log_def add_log_def)

theorem create_request_commits_request_before_log_witness:
  "require_employee (sample_employee 3)
   \<and> leave_type_row 1 sample_db \<noteq> None \<and> int64 1 \<and> int64 3 \<and> int64 480
   \<and> length (snd (api_create_request sample_now (sample_employee 3)
        (sample_payload 1 (mk_dt 2025 7 1 9) (mk_dt 2025 7 1 18) 480) sample_db)) = 2
   \<and> status_of 2 (hd (snd (api_create_request sample_now (sample_employee 3)
        (sample_payload 1 (mk_dt 2025 7 1 9) (mk_dt 2025 7 1 18) 480) sample_db))) = Some ''PENDING''
   \<and> \<not> has_log 2 ''CREATE'' (hd (snd (api_create_request sample_now (sample_employee 3)
        (sample_payload 1 (mk_dt 2025 7 1 9) (mk_dt 2025 7 1 18) 480) sample_db)))
   \<and> has_log 2 ''CREATE'' (last (snd (api_create_request sample_now (sample_employee 3)
        (sample_payload 1 (mk_dt 2025 7 1 9) (mk_dt 2025 7 1 18) 480) sample_db)))"
proof -
  let ?p = "sample_payload 1 (mk_dt 2025 7 1 9) (mk_dt 2025 7 1 18) 480"
  let ?call = "api_create_request sample_now (sample_employee 3) ?p sample_db"
  have a: "require_employee (sample_employee 3)" by (simp add: sample_defs auth_defs)
  have c: "current_employee_id (sample_employee 3) = Some 3" by (simp add: sample_defs auth_defs)
  have i: "int64 1" "int64 3" "int64 480" by (simp_all add: int64_def)
  have m: "int64 (cp_requested_minutes ?p)" by (simp add: sample_payload_def int64_def)
  obtain lt where y: "get_leave_type (cp_leave_type_id ?p) sample_db = Inr (Some lt)"
    by (simp add: get_defs row_defs int64_def sample_defs)
  have y': "leave_type_row 1 sample_db \<noteq> None"
    by (simp add: leave_type_row_def sample_defs)
  have f: "fst ?call = Inr (SuccessId 2)"
    by (simp add: api_create_request_def get_defs row_defs int64_def next_id_def Let_def
          sample_defs auth_defs)
  have nl: "\<not> has_log 2 ''CREATE'' sample_db" by (simp add: has_log_def sample_defs)
  from create_request_commits_request_before_log [OF a y c i(2) m, of sample_now]
  obtain rid d1 d2 where e: "?call = (Inr (SuccessId rid), [d1, d2])"
    and s1: "status_of rid d1 = Some ''PENDING''" and l1: "logs d1 = logs sample_db"
    and l2: "has_log rid ''CREATE'' d2" by blast
  from e f have rid: "rid = 2" by simp
  have "\<not> has_log 2 ''CREATE'' d1" using nl l1 by (simp add: has_log_def)
  then show ?thesis using a y' i e s1 l2 rid by simp
qed

text \<open>
  The other three transitions commit at most once, the status change together with its log
  entry.
\<close>

lemma transitions_commit_once:
  "snd (api_admin_approve now s rid d) = [] \<or>
     (\<exists>d'. api_admin_approve now s rid d = (Inr Success, [d'])
        \<and> is_pending rid d \<and> status_of rid d' = Some ''APPROVED'' \<and> has_log rid ''APPROVE'' d')"
  "snd (api_admin_reject now s rid c d) = [] \<or>
     (\<exists>d'. api_admin_reject now s rid c d = (Inr Success, [d'])
        \<and> is_pending rid d \<and> status_of rid d' = Some ''REJECTED'' \<and> has_log rid ''REJECT'' d')"
  "snd (api_cancel_request now s rid d) = [] \<or>
     (\<exists>d'. api_cancel_request now s rid d = (Inr Success, [d'])
        \<and> status_of rid d \<in> {Some ''PENDING'', Some ''APPROVED''}
        \<and> status_of rid d' = Some ''CANCELLED'' \<and> has_log rid ''CANCEL'' d')"
  by (auto simp: api_admin_approve_def api_admin_reject_def api_cancel_request_def
        is_pending_def status_of_def get_defs request_row_def find_set_status has_log_def
        add_log_def dest: find_id split: option.splits)


section \<open>Terminal states\<close>

lemma get_request_cases:
  "get_request i d = Inl OverflowError \<and> \<not> int64 i
   \<or> get_request i d = Inr (request_row i d) \<and> int64 i"
  by (simp add: get_defs)

lemma get_request_Some: "get_request i d = Inr (Some r) \<Longrightarrow> request_row i d = Some r \<and> lr_id r = i"
  by (auto simp: get_defs request_row_id split: if_splits)

lemma status_of_append:
  "status_of rid d = Some st \<Longrightarrow> status_of rid (d\<lparr>requests := requests d @ [r]\<rparr>\<lparr>logs := ls\<rparr>) = Some st"
  by (auto simp: status_of_def request_row_def find_append_last)

lemma run_op_terminal:
  assumes "status_of rid d = Some st" and "st = ''REJECTED'' \<or> st = ''CANCELLED''"
  shows "status_of rid (run_op x d) = Some st"
proof (cases x)
  case (Create now s p)
  then show ?thesis using assms(1)
    by (simp add: api_create_request_def Let_def final_def status_of_append
          split: option.splits sum.splits)
next
  case (Cancel now s i)
  show ?thesis
  proof (cases "i = rid")
    case True
    then have "snd (api_cancel_request now s i d) = []" using assms
      by (auto simp: api_cancel_request_def status_of_def
            dest: get_request_Some split: option.splits sum.splits)
    then show ?thesis using Cancel assms(1) by (simp add: final_def)
  next
    case False
    then show ?thesis using Cancel assms(1)
      by (auto simp: api_cancel_request_def final_def status_of_set_status
            dest: get_request_Some split: option.splits sum.splits)
  qed
next
  case (Approve now s i)
  show ?thesis
  proof (cases "i = rid")
    case True
    then have "snd (api_admin_approve now s i d) = []" using assms
      by (auto simp: api_admin_approve_def status_of_def
            dest: get_request_Some split: option.splits sum.splits)
    then show ?thesis using Approve assms(1) by (simp add: final_def)
  next
    case False
    then show ?thesis using Approve assms(1)
      by (auto simp: api_admin_approve_def final_def status_of_set_status
            dest: get_request_Some split: option.splits sum.splits)
  qed
next
  case (Reject now s i c)
  show ?thesis
  proof (cases "i = rid")
    case True
    then have "snd (api_admin_reject now s i c d) = []" using assms
      by (auto simp: api_admin_reject_def status_of_def
            dest: get_request_Some split: option.splits sum.splits)
    then show ?thesis using Reject assms(1) by (simp add: final_def)
  next
    case False
    then show ?thesis using Reject assms(1)
      by (auto simp: api_admin_reject_def final_def status_of_set_status
            dest: get_request_Some split: option.splits sum.splits)
  qed
qed

lemma run_ops_terminal:
  "status_of rid d = Some st \<Longrightarrow> st = ''REJECTED'' \<or> st = ''CANCELLED''
     \<Longrightarrow> status_of rid (run_ops ops d) = Some st"
  unfolding run_ops_def
  by (induction ops arbitrary: d) (simp_all add: run_op_terminal)

lemma cancel_approved:
  assumes "require_employee s" and "get_request rid d = Inr (Some r)"
    and "lr_status r = ''APPROVED''" and "Some (lr_employee_id r) = current_employee_id s"
  shows "fst (api_cancel_request now s rid d) = Inr Success
       \<and> status_of rid (final d (snd (api_cancel_request now s rid d))) = Some ''CANCELLED''"
  using assms get_request_Some [OF assms(2)]
  by (simp add: api_cancel_request_def final_def status_of_set_status)
     (simp add: status_of_def)

text \<open>
  C6. A request in status REJECTED or CANCELLED keeps that status under every sequence of
  create, cancel, approve and reject calls, by any caller; a request in status APPROVED is
  moved to CANCELLED when the employee who owns it cancels it.
\<close>

theorem rejected_cancelled_terminal_approved_cancellable:
  "(status_of rid d = Some ''REJECTED'' \<longrightarrow> status_of rid (run_ops ops d) = Some ''REJECTED'')
   \<and> (status_of rid d = Some ''CANCELLED'' \<longrightarrow> status_of rid (run_ops ops d) = Some ''CANCELLED'')
   \<and> (require_employee s \<and> get_request rid d = Inr (Some r) \<and> lr_status r = ''APPROVED''
        \<and> Some (lr_employee_id r) = current_employee_id s \<longrightarrow>
        fst (api_cancel_request now s rid d) = Inr Success
        \<and> status_of rid (final d (snd (api_cancel_request now s rid d))) = Some ''CANCELLED'')"
  using run_ops_terminal [of rid d "''REJECTED''" ops]
        run_ops_terminal [of rid d "''CANCELLED''" ops]
        cancel_approved [of s rid d r now]
  by blast

lemma sample_rejected_status: "status_of 1 sample_rejected = Some ''REJECTED''"
  by (simp add: sample_rejected_def run_ops_def api_admin_reject_def final_def status_of_def
        get_defs row_defs int64_def set_status_def sample_defs auth_defs)

lemma sample_approved_request:
  "get_request 1 sample_approved = Inr (Some (sample_request\<lparr>lr_status := ''APPROVED''\<rparr>))"
  by (simp add: sample_approved_def run_ops_def api_admin_approve_def final_def
        get_defs row_defs int64_def set_status_def sample_defs auth_defs)

theorem rejected_cancelled_terminal_approved_cancellable_witness:
  "status_of 1 sample_rejected = Some ''REJECTED''
   \<and> status_of 1 (run_ops [Approve sample_now sample_admin 1,
         Cancel sample_now (sample_employee 3) 1,
         Reject sample_now sample_admin 1 (Some ''again'')] sample_rejected) = Some ''REJECTED''
   \<and> require_employee (sample_employee 3)
   \<and> get_request 1 sample_approved = Inr (Some (sample_request\<lparr>lr_status := ''APPROVED''\<rparr>))
   \<and> fst (api_cancel_request sample_now (sample_employee 3) 1 sample_approved) = Inr Success
   \<and> status_of 1 (final sample_approved
         (snd (api_cancel_request sample_now (sample_employee 3) 1 sample_approved)))
       = Some ''CANCELLED''"
proof -
  have a: "require_employee (sample_employee 3)" by (simp add: sample_defs auth_defs)
  have o: "Some (lr_employee_id (sample_request\<lparr>lr_status := ''APPROVED''\<rparr>))
             = current_employee_id (sample_employee 3)"
    by (simp add: sample_defs auth_defs)
  have st: "lr_status (sample_request\<lparr>lr_status := ''APPROVED''\<rparr>) = ''APPROVED''" by simp
  note t1 = rejected_cancelled_terminal_approved_cancellable
    [where rid = 1 and d = sample_rejected
       and ops = "[Approve sample_now sample_admin 1, Cancel sample_now (sample_employee 3) 1,
                   Reject sample_now sample_admin 1 (Some ''again'')]"]
  note t2 = rejected_cancelled_terminal_approved_cancellable
    [where rid = 1 and d = sample_approved and s = "sample_employee 3" and now = sample_now
       and r = "sample_request\<lparr>lr_status := ''APPROVED''\<rparr>"]
  show ?thesis
    using t1 t2 a o st sample_rejected_status sample_approved_request by blast
qed

section \<open>Cancelling another employee's request\<close>

text \<open>
  C7, as amended. When an employee cancels a request that another employee owns, the call
  fails with the 404 "not found", which is the very result of the same call on any id within
  the 64-bit range of the store that is not in the store, and it commits nothing: the store
  is left as it was.
\<close>

theorem cancel_foreign_request_not_found:
  assumes "require_employee s" and "get_request rid d = Inr (Some r)"
    and "Some (lr_employee_id r) \<noteq> current_employee_id s"
    and "int64 missing" and "request_row missing d = None"
  shows "api_cancel_request now s rid d = (Inr (Error ''not found'' 404), [])
       \<and> api_cancel_request now s rid d = api_cancel_request now s missing d
       \<and> final d (snd (api_cancel_request now s rid d)) = d"
  using assms by (simp add: api_cancel_request_def final_def get_defs)

theorem cancel_foreign_request_not_found_witness:
  "require_employee (sample_employee 2)
   \<and> get_request 1 sample_db = Inr (Some sample_request)
   \<and> Some (lr_employee_id sample_request) \<noteq> current_employee_id (sample_employee 2)
   \<and> int64 7 \<and> request_row 7 sample_db = None
   \<and> api_cancel_request sample_now (sample_employee 2) 1 sample_db
       = (Inr (Error ''not found'' 404), [])
   \<and> api_cancel_request sample_now (sample_employee 2) 7 sample_db
       = (Inr (Error ''not found'' 404), [])"
proof -
  have a: "require_employee (sample_employee 2)" by (simp add: sample_defs auth_defs)
  have g: "get_request 1 sample_db = Inr (Some sample_request)"
    by (simp add: get_defs row_defs int64_def sample_defs)
  have o: "Some (lr_employee_id sample_request) \<noteq> current_employee_id (sample_employee 2)"
    by (simp add: sample_defs auth_defs)
  have i: "int64 7" by (simp add: int64_def)
  have m: "request_row 7 sample_db = None" by (simp add: row_defs sample_defs)
  note t = cancel_foreign_request_not_found [OF a g o i m, of sample_now]
  from t have x: "api_cancel_request sample_now (sample_employee 2) 1 sample_db
      = (Inr (Error ''not found'' 404), [])" by (rule conjunct1)
  from t have y: "api_cancel_request sample_now (sample_employee 2) 1 sample_db
      = api_cancel_request sample_now (sample_employee 2) 7 sample_db" by blast
  have z: "api_cancel_request sample_now (sample_employee 2) 7 sample_db
      = (Inr (Error ''not found'' 404), [])" unfolding y [symmetric] by (rule x)
  show ?thesis using a g o i m x z by blast
qed

text \<open>
  C7 as stated fails: the id \<open>2^63\<close> names no request of the store, and cancelling it raises
  \<open>OverflowError\<close>, where cancelling request 1 of another employee answers 404 "not found".
\<close>

theorem cancel_missing_id_overflow_counterexample:
  "require_employee (sample_employee 2)
   \<and> request_row 1 sample_db = Some sample_request
   \<and> Some (lr_employee_id sample_request) \<noteq> current_employee_id (sample_employee 2)
   \<and> request_row 9223372036854775808 sample_db = None
   \<and> api_cancel_request sample_now (sample_employee 2) 1 sample_db
       = (Inr (Error ''not found'' 404), [])
   \<and> api_cancel_request sample_now (sample_employee 2) 9223372036854775808 sample_db
       = (Inl OverflowError, [])
   \<and> api_cancel_request sample_now (sample_employee 2) 1 sample_db
       \<noteq> api_cancel_request sample_now (sample_employee 2) 9223372036854775808 sample_db"
  by (simp add: api_cancel_request_def get_defs row_defs int64_def sample_defs auth_defs)


section \<open>Policy store\<close>

text \<open>
  C8. For a key with no stored row, \<open>get_policy\<close> returns the built-in default
  (\<open>workday_minutes\<close> 480, \<open>sick_default_days\<close> 10, \<open>admin_pin\<close> 1234) and commits one
  state, which adds exactly one row for the key; a second call on that state returns the
  same value and commits nothing.
\<close>

theorem get_policy_idempotent:
  assumes "policy_rows key d = []"
  shows "(key = ''workday_minutes'' \<longrightarrow> fst (get_policy key d) = ''480'')
       \<and> (key = ''sick_default_days'' \<longrightarrow> fst (get_policy key d) = ''10'')
       \<and> (key = ''admin_pin'' \<longrightarrow> fst (get_policy key d) = ''1234'')
       \<and> length (snd (get_policy key d)) = 1
       \<and> length (policy_rows key (final d (snd (get_policy key d)))) = 1
       \<and> length (policies (final d (snd (get_policy key d)))) = length (policies d) + 1
       \<and> get_policy key (final d (snd (get_policy key d))) = (fst (get_policy key d), [])
       \<and> final (final d (snd (get_policy key d)))
            (snd (get_policy key (final d (snd (get_policy key d)))))
          = final d (snd (get_policy key d))"
proof -
  have n: "find (\<lambda>p. lp_key p = key) (policies d) = None"
    using assms by (auto simp: policy_rows_def find_None_iff filter_empty_conv)
  define v where "v = (case map_of DEFAULTS key of Some x \<Rightarrow> x | None \<Rightarrow> [])"
  define p where "p = \<lparr>lp_id = next_id (map lp_id (policies d)), lp_key = key, lp_value = v\<rparr>"
  have g: "get_policy key d = (v, [d\<lparr>policies := policies d @ [p]\<rparr>])"
    by (simp add: get_policy_def n Let_def v_def p_def)
  have k: "lp_key p = key" and pv: "lp_value p = v" by (simp_all add: p_def)
  have g2: "get_policy key (d\<lparr>policies := policies d @ [p]\<rparr>) = (v, [])"
    by (simp add: get_policy_def find_append_last n k pv)
  have dv: "(key = ''workday_minutes'' \<longrightarrow> v = ''480'')
       \<and> (key = ''sick_default_days'' \<longrightarrow> v = ''10'')
       \<and> (key = ''admin_pin'' \<longrightarrow> v = ''1234'')"
    by (simp add: v_def DEFAULTS_def)
  have rows: "policy_rows key (d\<lparr>policies := policies d @ [p]\<rparr>) = [p]"
    using assms by (simp add: policy_rows_def k)
  have f: "fst (get_policy key d) = v" by (simp add: g)
  have fin: "final d (snd (get_policy key d)) = d\<lparr>policies := policies d @ [p]\<rparr>"
    by (simp add: g final_def)
  show ?thesis
    unfolding fin f using dv by (simp add: g g2 rows final_def)
qed

theorem get_policy_idempotent_witness:
  "policy_rows ''workday_minutes'' sample_db = []
   \<and> fst (get_policy ''workday_minutes'' sample_db) = ''480''
   \<and> get_policy ''workday_minutes'' (final sample_db (snd (get_policy ''workday_minutes'' sample_db)))
       = (''480'', [])"
proof -
  have e: "policy_rows ''workday_minutes'' sample_db = []"
    by (simp add: policy_rows_def sample_defs)
  show ?thesis using e get_policy_idempotent [OF e] by simp
qed

text \<open>
  C9. For a key outside the default table with no stored row, \<open>get_policy\<close> returns the empty
  string and commits a state with one new row for the key, whose value is the empty string.
\<close>

theorem get_policy_unknown_key_empty:
  assumes "key \<notin> {''workday_minutes'', ''sick_default_days'', ''admin_pin''}"
    and "policy_rows key d = []"
  shows "get_policy key d =
           ([], [d\<lparr>policies := policies d @
                  [\<lparr>lp_id = next_id (map lp_id (policies d)), lp_key = key, lp_value = []\<rparr>]\<rparr>])
       \<and> map lp_value (policy_rows key (final d (snd (get_policy key d)))) = [[]]"
proof -
  have n: "find (\<lambda>p. lp_key p = key) (policies d) = None"
    using assms(2) by (auto simp: policy_rows_def find_None_iff filter_empty_conv)
  show ?thesis
    using assms n
    by (simp add: get_policy_def Let_def final_def policy_rows_def DEFAULTS_def)
qed

theorem get_policy_unknown_key_empty_witness:
  "''theme'' \<notin> {''workday_minutes'', ''sick_default_days'', ''admin_pin''}
   \<and> policy_rows ''theme'' sample_db = []
   \<and> fst (get_policy ''theme'' sample_db) = []
   \<and> map lp_value (policy_rows ''theme'' (final sample_db (snd (get_policy ''theme'' sample_db)))) = [[]]"
proof -
  have k: "''theme'' \<notin> {''workday_minutes'', ''sick_default_days'', ''admin_pin''}" by simp
  have e: "policy_rows ''theme'' sample_db = []" by (simp add: policy_rows_def sample_defs)
  note t = get_policy_unknown_key_empty [OF k e]
  from t have c2: "map lp_value (policy_rows ''theme''
      (final sample_db (snd (get_policy ''theme'' sample_db)))) = [[]]" by (rule conjunct2)
  from t have c1: "fst (get_policy ''theme'' sample_db) = []" by simp
  show ?thesis using k e c1 c2 by blast
qed

section \<open>Binary64 rounding: the exponent\<close>

declare bitlen.simps [simp del]

lemma pow2_power_int: "pow2 k = power_int 2 k"
  by (simp add: pow2_def power_int_def power_inverse [symmetric] inverse_eq_divide power_one_over)

lemma pow2_pos: "0 < pow2 k"
  by (simp add: pow2_def)

lemma pow2_strict_mono: "j < k \<Longrightarrow> pow2 j < pow2 k"
  unfolding pow2_power_int by (rule power_int_strict_increasing) simp_all

lemma pow2_mono: "j \<le> k \<Longrightarrow> pow2 j \<le> pow2 k"
  unfolding pow2_power_int by (rule power_int_increasing) simp_all

lemma pow2_add: "pow2 (j + k) = pow2 j * pow2 k"
  unfolding pow2_power_int by (rule power_int_add) simp

lemma pow2_nat: "pow2 (int n) = 2 ^ n"
  by (simp add: pow2_def)

lemma pow2_neg_nat: "pow2 (- int n) = 1 / 2 ^ n"
  by (cases n) (simp_all add: pow2_def nat_add_distrib)

lemma bitlen_bounds: "0 < n \<Longrightarrow> 2 ^ (bitlen n - 1) \<le> n \<and> n < 2 ^ bitlen n"
proof (induction n rule: bitlen.induct)
  case (1 n)
  show ?case
  proof (cases "n div 2 = 0")
    case True
    with "1.prems" have "n = 1" by (simp add: div_eq_0_iff)
    moreover have "bitlen (Suc 0) = Suc 0"
      by (simp add: bitlen.simps [of "Suc 0"] bitlen.simps [of 0])
    ultimately show ?thesis by simp
  next
    case False
    then have h: "0 < n div 2" by simp
    from "1.prems" have n0: "n \<noteq> 0" by simp
    from "1.IH" [OF n0 h] have lo: "2 ^ (bitlen (n div 2) - 1) \<le> n div 2"
      and hi: "n div 2 < 2 ^ bitlen (n div 2)" by simp_all
    have bpos: "0 < bitlen (n div 2)" using h by (subst bitlen.simps) simp
    have e: "bitlen n = Suc (bitlen (n div 2))" using n0 by (subst bitlen.simps) simp
    have "2 ^ bitlen (n div 2) = 2 * 2 ^ (bitlen (n div 2) - 1)"
      using bpos by (cases "bitlen (n div 2)") simp_all
    also have "\<dots> \<le> 2 * (n div 2)" using lo by simp
    also have "\<dots> \<le> n" by simp
    finally have l: "2 ^ (bitlen n - 1) \<le> n" by (simp add: e)
    have "n < 2 * (n div 2) + 2" by linarith
    also have "\<dots> \<le> 2 * 2 ^ bitlen (n div 2)" using hi by simp
    finally have "n < 2 ^ bitlen n" by (simp add: e)
    with l show ?thesis by simp
  qed
qed

lemma ilog2_bounds:
  assumes "0 < a"
  shows "pow2 (ilog2 a) \<le> a \<and> a < pow2 (ilog2 a + 1)"
proof (cases "1 \<le> a")
  case True
  define n where "n = nat \<lfloor>a\<rfloor>"
  have n1: "0 < n" using True by (simp add: n_def)
  have f0: "0 \<le> \<lfloor>a\<rfloor>" using True by simp
  have nf: "(of_nat n :: rat) = of_int \<lfloor>a\<rfloor>"
    unfolding n_def using f0 by (metis of_int_of_nat_eq nat_0_le)
  have fl: "of_nat n \<le> a" unfolding nf by simp
  have fu: "a < of_nat n + 1" unfolding nf by linarith
  from bitlen_bounds [OF n1] have lo: "2 ^ (bitlen n - 1) \<le> n" and hi: "n < 2 ^ bitlen n"
    by simp_all
  have bpos: "0 < bitlen n" using n1 by (subst bitlen.simps) simp
  have k: "ilog2 a = int (bitlen n - 1)" using True bpos by (simp add: ilog2_def n_def)
  have k1: "ilog2 a + 1 = int (bitlen n)" using bpos by (simp add: k)
  have "(2::rat) ^ (bitlen n - 1) = of_nat (2 ^ (bitlen n - 1))" by simp
  also have "\<dots> \<le> of_nat n" using lo by (simp only: of_nat_le_iff)
  also note fl
  finally have l: "pow2 (ilog2 a) \<le> a" unfolding k pow2_nat .
  have "of_nat n + (1::rat) = of_nat (n + 1)" by simp
  also have "\<dots> \<le> of_nat (2 ^ bitlen n)" using hi by (simp only: of_nat_le_iff)
  also have "\<dots> = (2::rat) ^ bitlen n" by simp
  finally have "a < 2 ^ bitlen n" using fu by simp
  then have "a < pow2 (ilog2 a + 1)" unfolding k1 pow2_nat .
  with l show ?thesis by simp
next
  case False
  define b where "b = 1 / a"
  define c where "c = \<lceil>b\<rceil>"
  define n where "n = nat (c - 1)"
  have b1: "1 < b" using False assms by (simp add: b_def)
  have c2: "2 \<le> c" using b1 unfolding c_def by linarith
  have n1: "0 < n" using c2 by (simp add: n_def)
  have cn: "c = int n + 1" using c2 by (simp add: n_def)
  have bu: "b \<le> of_int c" unfolding c_def by simp
  have bl: "of_int c - 1 < b" unfolding c_def by linarith
  from bitlen_bounds [OF n1] have lo: "2 ^ (bitlen n - 1) \<le> n" and hi: "n < 2 ^ bitlen n"
    by simp_all
  have bpos: "0 < bitlen n" using n1 by (subst bitlen.simps) simp
  have k: "ilog2 a = - int (bitlen n)" using False by (simp add: ilog2_def n_def c_def b_def)
  have k1: "ilog2 a + 1 = - int (bitlen n - 1)" using bpos by (simp add: k)
  have p2: "(2::int) ^ bitlen n = int (2 ^ bitlen n)" by simp
  have ci: "c \<le> 2 ^ bitlen n" unfolding cn p2 using hi by linarith
  have "(of_int c :: rat) \<le> of_int (2 ^ bitlen n)" using ci by (simp only: of_int_le_iff)
  also have "\<dots> = 2 ^ bitlen n" by simp
  finally have cr: "(of_int c :: rat) \<le> 2 ^ bitlen n" .
  have "b \<le> 2 ^ bitlen n" by (rule order_trans [OF bu cr])
  then have "1 / 2 ^ bitlen n \<le> a" using assms unfolding b_def
    by (simp add: field_simps)
  then have l: "pow2 (ilog2 a) \<le> a" unfolding k pow2_neg_nat .
  have "(2::rat) ^ (bitlen n - 1) = of_nat (2 ^ (bitlen n - 1))" by simp
  also have "\<dots> \<le> of_nat n" using lo by (simp only: of_nat_le_iff)
  also have "\<dots> = of_int c - 1" by (simp add: cn)
  also note bl
  finally have "2 ^ (bitlen n - 1) < 1 / a" unfolding b_def .
  then have "a < 1 / 2 ^ (bitlen n - 1)" using assms by (simp add: field_simps)
  then have "a < pow2 (ilog2 a + 1)" unfolding k1 pow2_neg_nat .
  with l show ?thesis by simp
qed

lemma ilog2_unique:
  assumes "pow2 k \<le> a" and "a < pow2 (k + 1)"
  shows "ilog2 a = k"
proof -
  have a0: "0 < a" using assms(1) pow2_pos [of k] by simp
  from ilog2_bounds [OF a0] have l: "pow2 (ilog2 a) \<le> a" and u: "a < pow2 (ilog2 a + 1)"
    by simp_all
  have "\<not> ilog2 a < k"
  proof
    assume "ilog2 a < k"
    then have "pow2 (ilog2 a + 1) \<le> pow2 k" by (intro pow2_mono) simp
    with u assms(1) show False by simp
  qed
  moreover have "\<not> k < ilog2 a"
  proof
    assume "k < ilog2 a"
    then have "pow2 (k + 1) \<le> pow2 (ilog2 a)" by (intro pow2_mono) simp
    with l assms(2) show False by simp
  qed
  ultimately show ?thesis by simp
qed

section \<open>Binary64 rounding: evaluation and exact cases\<close>

lemma rne_of_int: "rne (of_int m) = m"
  by (simp add: rne_def)

lemma round_to_double_eval:
  assumes "q \<noteq> 0" and "pow2 k \<le> \<bar>q\<bar>" and "\<bar>q\<bar> < pow2 (k + 1)"
  shows "round_to_double q =
           (let e = max (k - 52) (- 1074);
                v = of_int (rne (\<bar>q\<bar> / pow2 e)) * pow2 e
            in if pow2 1024 \<le> v then Infinity (q < 0)
               else Finite (if q < 0 then - v else v))"
  by (simp only: round_to_double_def Let_def ilog2_unique [OF assms(2,3)] assms(1) if_False)

lemma round_to_double_int:
  assumes "\<bar>n\<bar> < 2 ^ 53"
  shows "round_to_double (of_int n) = Finite (of_int n)"
proof (cases "n = 0")
  case True
  then show ?thesis by (simp add: round_to_double_def)
next
  case False
  define a :: rat where "a = \<bar>of_int n\<bar>"
  define k where "k = ilog2 a"
  have "1 \<le> \<bar>n\<bar>" using False by linarith
  then have "(of_int 1 :: rat) \<le> of_int \<bar>n\<bar>" by (simp only: of_int_le_iff)
  then have a1: "1 \<le> a" by (simp add: a_def)
  have a53: "a < pow2 53"
  proof -
    have "(of_int \<bar>n\<bar> :: rat) < of_int (2 ^ 53)" using assms by (simp only: of_int_less_iff)
    then show ?thesis by (simp add: a_def pow2_def)
  qed
  have a0: "0 < a" using a1 by simp
  from ilog2_bounds [OF a0] have l: "pow2 k \<le> a" and u: "a < pow2 (k + 1)"
    by (simp_all add: k_def)
  have k52: "k \<le> 52"
  proof (rule ccontr)
    assume "\<not> k \<le> 52"
    then have "pow2 53 \<le> pow2 k" by (intro pow2_mono) simp
    with l a53 show False by simp
  qed
  have k0: "0 \<le> k"
  proof (rule ccontr)
    assume "\<not> 0 \<le> k"
    then have "pow2 (k + 1) \<le> pow2 0" by (intro pow2_mono) simp
    with u a1 show False by (simp add: pow2_def)
  qed
  define j where "j = nat (52 - k)"
  have e: "max (k - 52) (- 1074) = - int j" using k52 k0 by (simp add: j_def)
  have pe: "pow2 (- int j) = 1 / 2 ^ j" by (rule pow2_neg_nat)
  have "a / (1 / 2 ^ j) = of_int (\<bar>n\<bar> * 2 ^ j)" by (simp add: a_def)
  then have r: "rne (a / (1 / 2 ^ j)) = \<bar>n\<bar> * 2 ^ j" by (simp only: rne_of_int)
  have v: "of_int (rne (a / pow2 (- int j))) * pow2 (- int j) = a"
    unfolding pe r by (simp add: a_def)
  have big: "\<not> pow2 1024 \<le> a"
  proof -
    have "pow2 53 \<le> pow2 1024" by (intro pow2_mono) simp
    with a53 show ?thesis by simp
  qed
  have n0: "(of_int n :: rat) \<noteq> 0" using False by simp
  have "round_to_double (of_int n) =
          (if pow2 1024 \<le> a then Infinity (of_int n < (0::rat))
           else Finite (if of_int n < (0::rat) then - a else a))"
    using n0 by (simp add: round_to_double_def Let_def a_def [symmetric] k_def [symmetric] e v)
  also have "\<dots> = Finite (of_int n)" using big by (simp add: a_def)
  finally show ?thesis .
qed

lemma py_round2_int:
  assumes "\<bar>n\<bar> < 2 ^ 53"
  shows "py_round2 (Finite (of_int n)) = Inr (Finite (of_int n))"
proof -
  have "of_int n * (100::rat) = of_int (n * 100)" by simp
  then have "rne (of_int n * 100) = n * 100" by (simp only: rne_of_int)
  then show ?thesis by (simp add: py_round2_def round_to_double_int [OF assms])
qed

lemma rne_frac:
  assumes "0 < d"
  shows "rne (of_int n / of_int d) =
           (let f = n div d; r2 = 2 * (n mod d)
            in if r2 < d then f else if d < r2 then f + 1 else if even f then f else f + 1)"
proof -
  have d0: "(of_int d :: rat) \<noteq> 0" and dp: "(0::rat) < of_int d" using assms by simp_all
  have f: "\<lfloor>(of_int n :: rat) / of_int d\<rfloor> = n div d" by (rule floor_divide_of_int_eq)
  have "n = n div d * d + n mod d" by simp
  then have "(of_int n :: rat) = of_int (n div d * d + n mod d)" by (simp only:)
  then have e: "(of_int n :: rat) = of_int (n div d) * of_int d + of_int (n mod d)"
    by (simp only: of_int_add of_int_mult)
  have "(of_int n :: rat) / of_int d = of_int (n div d) + of_int (n mod d) / of_int d"
    by (subst e) (simp add: add_divide_distrib d0)
  then have r: "(of_int n :: rat) / of_int d - of_int (n div d) = of_int (n mod d) / of_int d"
    by simp
  have lt: "((of_int (n mod d) :: rat) / of_int d < 1 / 2) = (2 * (n mod d) < d)"
  proof -
    have "((of_int (n mod d) :: rat) / of_int d < 1 / 2) = ((of_int (2 * (n mod d)) :: rat) < of_int d)"
      using dp by (simp add: field_simps)
    also have "\<dots> = (2 * (n mod d) < d)" by (simp only: of_int_less_iff)
    finally show ?thesis .
  qed
  have gt: "(1 / 2 < (of_int (n mod d) :: rat) / of_int d) = (d < 2 * (n mod d))"
  proof -
    have "(1 / 2 < (of_int (n mod d) :: rat) / of_int d) = ((of_int d :: rat) < of_int (2 * (n mod d)))"
      using dp by (simp add: field_simps)
    also have "\<dots> = (d < 2 * (n mod d))" by (simp only: of_int_less_iff)
    finally show ?thesis .
  qed
  show ?thesis
    unfolding rne_def Let_def f r lt gt ..
qed

lemma rne_numeral [simp]:
  "rne (numeral n / numeral d) =
           (let f = numeral n div numeral d; r2 = 2 * (numeral n mod numeral d)
            in if r2 < (numeral d :: int) then f else if numeral d < r2 then f + 1
               else if even f then f else f + 1)"
  using rne_frac [of "numeral d" "numeral n"] by simp

lemma rne_numeral_int [simp]: "rne (numeral n) = numeral n"
  using rne_of_int [of "numeral n"] by simp

text \<open>Pinned values: \<open>12 / 480\<close> is the double next above 0.025, and rounds to 0.03.\<close>

lemma round_to_double_fortieth: "round_to_double (1 / 40) = Finite (3602879701896397 / 144115188075855872)"
  by (subst round_to_double_eval [where k = "- 6"]) (simp_all add: pow2_def Let_def)

lemma py_round2_fortieth: "py_round2 (Finite (3602879701896397 / 144115188075855872)) = Inr (Finite (1080863910568919 / 36028797018963968))"
  apply (simp add: py_round2_def)
  apply (subst round_to_double_eval [where k = "- 6"])
  apply (simp_all add: pow2_def Let_def)
  done

section \<open>Binary64 rounding: distance from the exact value\<close>

lemma rne_error: "\<bar>of_int (rne q) - q\<bar> \<le> 1 / 2"
proof -
  have "of_int \<lfloor>q\<rfloor> \<le> q" and "q < of_int \<lfloor>q\<rfloor> + 1" by linarith+
  then show ?thesis by (auto simp: rne_def Let_def)
qed

lemma round_to_double_error:
  assumes "round_to_double q = Finite v"
  shows "\<bar>v - q\<bar> \<le> \<bar>q\<bar> / 2 ^ 53 + 1 / 2 ^ 1075"
proof (cases "q = 0")
  case True
  with assms show ?thesis by (simp add: round_to_double_def)
next
  case False
  define a where "a = \<bar>q\<bar>"
  define e where "e = max (ilog2 a - 52) (- 1074)"
  define p where "p = pow2 e"
  define v' where "v' = of_int (rne (a / p)) * p"
  have a0: "0 < a" using False by (simp add: a_def)
  have p0: "0 < p" unfolding p_def by (rule pow2_pos)
  have v: "v = (if q < 0 then - v' else v')"
    using assms False
    by (simp add: round_to_double_def Let_def a_def [symmetric] e_def [symmetric]
          p_def [symmetric] v'_def [symmetric] split: if_splits)
  have "\<bar>v' - a\<bar> = \<bar>of_int (rne (a / p)) - a / p\<bar> * p"
  proof -
    have "v' - a = (of_int (rne (a / p)) - a / p) * p"
      using p0 by (simp add: v'_def field_simps)
    then show ?thesis using p0 by (simp add: abs_mult)
  qed
  also have "\<dots> \<le> (1 / 2) * p"
    using rne_error [of "a / p"] p0 by (intro mult_right_mono) simp_all
  finally have err: "\<bar>v' - a\<bar> \<le> p / 2" by simp
  have pb: "p \<le> a / 2 ^ 52 + 1 / 2 ^ 1074"
  proof (cases "- 1074 \<le> ilog2 a - 52")
    case True
    then have "e = ilog2 a - 52" by (simp add: e_def)
    then have "p = pow2 (ilog2 a + (- 52))" by (simp add: p_def)
    also have "\<dots> = pow2 (ilog2 a) * pow2 (- 52)" by (rule pow2_add)
    also have "\<dots> \<le> a * pow2 (- 52)"
      using ilog2_bounds [OF a0] pow2_pos [of "- 52"] by (intro mult_right_mono) simp_all
    also have "\<dots> = a / 2 ^ 52" by (simp add: pow2_def)
    finally show ?thesis by simp
  next
    case False
    then have "e = - 1074" by (simp add: e_def)
    then have "p = 1 / 2 ^ 1074" by (simp add: p_def pow2_def)
    then show ?thesis using a0 by simp
  qed
  have "\<bar>v - q\<bar> = \<bar>v' - a\<bar>"
  proof (cases "q < 0")
    case True
    then have "v - q = - (v' - a)" by (simp add: v a_def)
    then show ?thesis by (simp only: abs_minus_cancel)
  next
    case False
    then show ?thesis by (simp add: v a_def)
  qed
  also note err
  also have "p / 2 \<le> (a / 2 ^ 52 + 1 / 2 ^ 1074) / 2" using pb by simp
  also have "\<dots> = a / 2 ^ 53 + 1 / 2 ^ 1075" by simp
  finally show ?thesis by (simp add: a_def)
qed


lemma py_round2_error:
  assumes "py_round2 (Finite x) = Inr (Finite u)"
  shows "\<bar>u - x\<bar> \<le> 1 / 200 + (\<bar>x\<bar> + 1 / 200) / 2 ^ 53 + 1 / 2 ^ 1075"
proof -
  define dd where "dd = (of_int (rne (x * 100)) :: rat) / 100"
  have r: "round_to_double dd = Finite u"
    using assms by (simp add: py_round2_def dd_def split: pyfloat.splits)
  have "\<bar>of_int (rne (x * 100)) - x * 100\<bar> \<le> 1 / 2" by (rule rne_error)
  then have d: "\<bar>dd - x\<bar> \<le> 1 / 200" unfolding dd_def by (simp add: field_simps abs_if split: if_splits)
  then have da: "\<bar>dd\<bar> \<le> \<bar>x\<bar> + 1 / 200" by linarith
  from round_to_double_error [OF r] have "\<bar>u - dd\<bar> \<le> \<bar>dd\<bar> / 2 ^ 53 + 1 / 2 ^ 1075" .
  also have "\<dots> \<le> (\<bar>x\<bar> + 1 / 200) / 2 ^ 53 + 1 / 2 ^ 1075"
    using da by (simp add: divide_right_mono)
  finally have "\<bar>u - dd\<bar> \<le> (\<bar>x\<bar> + 1 / 200) / 2 ^ 53 + 1 / 2 ^ 1075" .
  with d show ?thesis by linarith
qed

text \<open>
  \<open>round(m / w, 2)\<close> against the exact quotient: within half a hundredth, up to the two
  binary roundings.
\<close>

lemma minutes_to_days_error:
  assumes "minutes_to_days w m = Inr (Finite u)"
  shows "\<bar>u - of_int m / of_int w\<bar> \<le> 1 / 200 + (\<bar>of_int m / of_int w\<bar> + 1) / 2 ^ 51"
proof -
  define q :: rat where "q = of_int m / of_int w"
  from assms obtain x where x: "round_to_double q = Finite x"
    and u: "py_round2 (Finite x) = Inr (Finite u)"
    by (auto simp: minutes_to_days_def py_truediv_def raise_bind_def q_def
          split: if_splits pyfloat.splits sum.splits)
  define t :: rat where "t = 1 / 2 ^ 53"
  define z :: rat where "z = 1 / 2 ^ 1075"
  have t0: "0 < t" and t1: "t \<le> 1" by (simp_all add: t_def)
  have z0: "0 \<le> z" and zt: "z \<le> t / 8" by (simp_all add: z_def t_def)
  have e1: "\<bar>x - q\<bar> \<le> \<bar>q\<bar> * t + z"
    using round_to_double_error [OF x] by (simp add: t_def z_def)
  have e2: "\<bar>u - x\<bar> \<le> 1 / 200 + (\<bar>x\<bar> + 1 / 200) * t + z"
    using py_round2_error [OF u] by (simp add: t_def z_def)
  have xa: "\<bar>x\<bar> \<le> \<bar>q\<bar> + \<bar>q\<bar> * t + z" using e1 by linarith
  have qt: "\<bar>q\<bar> * t \<le> \<bar>q\<bar>" using t1 by (simp add: mult_left_le)
  have "(\<bar>x\<bar> + 1 / 200) * t \<le> (\<bar>q\<bar> + \<bar>q\<bar> * t + z + 1 / 200) * t"
    using xa t0 by (intro mult_right_mono) simp_all
  also have "\<dots> \<le> (2 * \<bar>q\<bar> + z + 1 / 200) * t"
    using qt t0 by (intro mult_right_mono) simp_all
  finally have e3: "(\<bar>x\<bar> + 1 / 200) * t \<le> 2 * \<bar>q\<bar> * t + (z + 1 / 200) * t"
    by (simp add: algebra_simps)
  have zt2: "(z + 1 / 200) * t \<le> t"
  proof -
    have "z + 1 / 200 \<le> 1" using zt t1 by linarith
    then show ?thesis using t0 by (simp add: mult_left_le_one_le)
  qed
  have "\<bar>u - q\<bar> \<le> \<bar>u - x\<bar> + \<bar>x - q\<bar>" by linarith
  also have "\<dots> \<le> 1 / 200 + 3 * \<bar>q\<bar> * t + 2 * z + t"
    using e1 e2 e3 zt2 by linarith
  also have "\<dots> \<le> 1 / 200 + (\<bar>q\<bar> + 1) * (4 * t)"
  proof -
    have tq: "0 \<le> \<bar>q\<bar> * t" using t0 by simp
    have ex: "(\<bar>q\<bar> + 1) * (4 * t) = 4 * (\<bar>q\<bar> * t) + 4 * t" by (simp add: algebra_simps)
    show ?thesis unfolding ex using tq zt t0 by linarith
  qed
  finally show ?thesis by (simp add: q_def t_def)
qed


section \<open>Ledger summary\<close>

lemma get_policy_final:
  "requests (final d (snd (get_policy k d))) = requests d"
  "leave_types (final d (snd (get_policy k d))) = leave_types d"
  "employees (final d (snd (get_policy k d))) = employees d"
  "logs (final d (snd (get_policy k d))) = logs d"
  by (simp_all add: get_policy_def final_def Let_def split: option.splits)

lemma used_loop_cong:
  "leave_types d' = leave_types d \<Longrightarrow> used_loop d' rs u = used_loop d rs u"
  by (induction rs arbitrary: u) (simp_all add: leave_type_row_def split: option.splits)

lemma used_loop_sum:
  "used_loop d rs u = Inr u' \<Longrightarrow>
     dict_get u' c 0 =
       dict_get u c 0
       + sum_list (map lr_requested_minutes (filter (\<lambda>r. leave_code d r = Some c) rs))"
proof (induction rs arbitrary: u)
  case Nil
  then show ?case by simp
next
  case (Cons r rs)
  from Cons.prems obtain t where t: "leave_type_row (lr_leave_type_id r) d = Some t"
    and rest: "used_loop d rs (u(lt_code t \<mapsto> dict_get u (lt_code t) 0 + lr_requested_minutes r)) = Inr u'"
    by (auto split: option.splits)
  from Cons.IH [OF rest] t show ?case
    by (auto simp: leave_code_def dict_get_def)
qed

lemma used_init_get: "dict_get used_init c 0 = 0"
  by (simp add: used_init_def dict_get_def)

lemma summary_success_cases:
  assumes "api_my_summary ip today s year d = (Inr (Json sm), cs)"
  obtains eid e w sg u d2 where
    "require_employee s" and "current_employee_id s = Some eid"
    and "get_employee eid d = Inr (Some e)"
    and "py_int ip (policy_or (fst (get_policy ''workday_minutes'' d)) ''480'') = Some w"
    and "1 \<le> year" and "year \<le> 9999"
    and "d2 = final (final d (snd (get_policy ''workday_minutes'' d)))
                (snd (get_policy ''sick_default_days'' (final d (snd (get_policy ''workday_minutes'' d)))))"
    and "py_int ip (policy_or (fst (get_policy ''sick_default_days''
            (final d (snd (get_policy ''workday_minutes'' d))))) ''10'') = Some sg"
    and "used_loop d2 (filter (approved_in_year (emp_id e) year) (requests d2)) used_init = Inr u"
    and "minutes_to_days w (dict_get u ''ANNUAL'' 0) = Inr (sm_annual_used sm)"
    and "minutes_to_days w (dict_get u ''SICK'' 0) = Inr (sm_sick_used sm)"
    and "minutes_to_days w (dict_get u ''EVENT'' 0) = Inr (sm_event_used sm)"
    and "minutes_to_days w (dict_get u ''PUBLIC'' 0) = Inr (sm_public_used sm)"
    and "raise_bind (py_int_sub_float (sm_annual_granted sm) (sm_annual_used sm)) py_round2
           = Inr (sm_annual_remaining sm)"
    and "raise_bind (py_int_sub_float (sm_sick_granted sm) (sm_sick_used sm)) py_round2
           = Inr (sm_sick_remaining sm)"
    and "sm_workday_minutes sm = w" and "sm_sick_granted sm = sg"
    and "sm_annual_granted sm = calculate_annual_leave_days today (emp_join_date e)
           (Some \<lparr>d_year = year, d_month = 12, d_day = 31\<rparr>)"
    and "sm_year sm = year"
  using assms
  unfolding api_my_summary_def Let_def
  by (auto simp: raise_bind_def split: if_splits option.splits prod.splits sum.splits)

text \<open>The literals of the samples, under every interpreter.\<close>

lemma py_int_samples:
  "py_int ip ''480'' = Some 480" "py_int ip ''10'' = Some 10" "py_int ip ''0'' = Some 0"
  "py_int ip ''eight'' = None" "py_int ip [] = None"
  by (simp_all add: py_int_def is_ascii_def over_limit_def strip_def is_space_def is_digit_def
        digit_val_def Let_def)

lemma round_to_double_0 [simp]: "round_to_double 0 = Finite 0"
  by (simp add: round_to_double_def)

lemma round_to_double_numeral [simp]:
  "(numeral n :: int) < 2 ^ 53 \<Longrightarrow> round_to_double (numeral n) = Finite (numeral n)"
  "(numeral n :: int) < 2 ^ 53 \<Longrightarrow> round_to_double (- numeral n) = Finite (- numeral n)"
  using round_to_double_int [of "numeral n"] round_to_double_int [of "- numeral n"] by simp_all

lemma round_to_double_1 [simp]: "round_to_double 1 = Finite 1"
  using round_to_double_int [of 1] by simp

lemma py_round2_numeral [simp]:
  "(numeral n :: int) < 2 ^ 53 \<Longrightarrow> py_round2 (Finite (numeral n)) = Inr (Finite (numeral n))"
  "(numeral n :: int) < 2 ^ 53 \<Longrightarrow> py_round2 (Finite (- numeral n)) = Inr (Finite (- numeral n))"
  "py_round2 (Finite 0) = Inr (Finite 0)"
  "py_round2 (Finite 1) = Inr (Finite 1)"
  using py_round2_int [of "numeral n"] py_round2_int [of "- numeral n"] py_round2_int [of 0]
    py_round2_int [of 1]
  by simp_all

lemma get_employee_id: "get_employee i d = Inr (Some e) \<Longrightarrow> emp_id e = i"
  by (auto simp: get_defs employee_row_def find_Some_iff split: if_splits)

lemma get_policy_other_key:
  "k \<noteq> k' \<Longrightarrow> fst (get_policy k' (final d (snd (get_policy k d)))) = fst (get_policy k' d)"
  by (simp add: get_policy_def final_def Let_def find_append_last split: option.splits)

text \<open>
  What a returned summary holds, for the employee of the session: for each of ANNUAL, SICK,
  EVENT and PUBLIC, \<open>used_days\<close> is \<open>round(m / workday_minutes, 2)\<close>, where \<open>m\<close> sums
  \<open>requested_minutes\<close> over that employee's APPROVED requests of that leave-type code
  whose \<open>start_dt\<close> lies in the window of the year, and \<open>workday_minutes\<close> is the policy
  value; \<open>remaining_days\<close> of ANNUAL and of SICK is \<open>round(granted - used, 2)\<close>, with no
  floor at zero, \<open>granted\<close> being the annual entitlement as of 31 December of the year, or
  the \<open>sick_default_days\<close> policy.
\<close>

lemma summary_ledger:
  assumes "api_my_summary ip today s year d = (Inr (Json sm), cs)"
  shows "\<exists>eid e.
           current_employee_id s = Some eid \<and> get_employee eid d = Inr (Some e)
         \<and> py_int ip (policy_or (fst (get_policy ''workday_minutes'' d)) ''480'')
             = Some (sm_workday_minutes sm)
         \<and> raise_bind (py_truediv (approved_minutes eid year ''ANNUAL'' d) (sm_workday_minutes sm))
               py_round2 = Inr (sm_annual_used sm)
         \<and> raise_bind (py_truediv (approved_minutes eid year ''SICK'' d) (sm_workday_minutes sm))
               py_round2 = Inr (sm_sick_used sm)
         \<and> raise_bind (py_truediv (approved_minutes eid year ''EVENT'' d) (sm_workday_minutes sm))
               py_round2 = Inr (sm_event_used sm)
         \<and> raise_bind (py_truediv (approved_minutes eid year ''PUBLIC'' d) (sm_workday_minutes sm))
               py_round2 = Inr (sm_public_used sm)
         \<and> sm_annual_granted sm = calculate_annual_leave_days today (emp_join_date e)
               (Some \<lparr>d_year = year, d_month = 12, d_day = 31\<rparr>)
         \<and> py_int ip (policy_or (fst (get_policy ''sick_default_days'' d)) ''10'')
             = Some (sm_sick_granted sm)
         \<and> raise_bind (py_int_sub_float (sm_annual_granted sm) (sm_annual_used sm)) py_round2
             = Inr (sm_annual_remaining sm)
         \<and> raise_bind (py_int_sub_float (sm_sick_granted sm) (sm_sick_used sm)) py_round2
             = Inr (sm_sick_remaining sm)"
proof -
  from assms obtain eid e w sg u d2 where
    eid: "current_employee_id s = Some eid" and e: "get_employee eid d = Inr (Some e)"
    and w: "py_int ip (policy_or (fst (get_policy ''workday_minutes'' d)) ''480'') = Some w"
    and d2: "d2 = final (final d (snd (get_policy ''workday_minutes'' d)))
                (snd (get_policy ''sick_default_days'' (final d (snd (get_policy ''workday_minutes'' d)))))"
    and sg: "py_int ip (policy_or (fst (get_policy ''sick_default_days''
            (final d (snd (get_policy ''workday_minutes'' d))))) ''10'') = Some sg"
    and u: "used_loop d2 (filter (approved_in_year (emp_id e) year) (requests d2)) used_init = Inr u"
    and au: "minutes_to_days w (dict_get u ''ANNUAL'' 0) = Inr (sm_annual_used sm)"
    and su: "minutes_to_days w (dict_get u ''SICK'' 0) = Inr (sm_sick_used sm)"
    and eu: "minutes_to_days w (dict_get u ''EVENT'' 0) = Inr (sm_event_used sm)"
    and pu: "minutes_to_days w (dict_get u ''PUBLIC'' 0) = Inr (sm_public_used sm)"
    and ar: "raise_bind (py_int_sub_float (sm_annual_granted sm) (sm_annual_used sm)) py_round2
           = Inr (sm_annual_remaining sm)"
    and sr: "raise_bind (py_int_sub_float (sm_sick_granted sm) (sm_sick_used sm)) py_round2
           = Inr (sm_sick_remaining sm)"
    and smw: "sm_workday_minutes sm = w" and smsg: "sm_sick_granted sm = sg"
    and smag: "sm_annual_granted sm = calculate_annual_leave_days today (emp_join_date e)
           (Some \<lparr>d_year = year, d_month = 12, d_day = 31\<rparr>)"
    by (rule summary_success_cases)
  have rq: "requests d2 = requests d" and lt: "leave_types d2 = leave_types d"
    unfolding d2 by (simp_all add: get_policy_final)
  have id: "emp_id e = eid" using e by (rule get_employee_id)
  have u': "used_loop d (filter (approved_in_year eid year) (requests d)) used_init = Inr u"
    using u unfolding rq id by (simp add: used_loop_cong [OF lt])
  have tot: "dict_get u c 0 = approved_minutes eid year c d" for c
    using used_loop_sum [OF u', of c]
    by (simp add: used_init_get approved_minutes_def conj_commute)
  have sg': "py_int ip (policy_or (fst (get_policy ''sick_default_days'' d)) ''10'') = Some sg"
    using sg by (simp add: get_policy_other_key)
  show ?thesis
    using eid e w au su eu pu ar sr smag sg'
    by (simp add: tot smw smsg minutes_to_days_def)
qed

text \<open>
  At the sample ledger the entitlement is 10 days and 12 are used: the remaining balance
  is negative.
\<close>

lemma sample_ledger_summary:
  "api_my_summary sample_interp sample_today (sample_employee 2) 2025 sample_ledger
     = (Inr (Json sample_summary), [])"
  by (simp add: api_my_summary_def get_policy_def get_defs row_defs int64_def c_int_def
        policy_or_def py_int_samples final_def calculate_annual_leave_days_def
        approved_in_year_def dt_le_def dt_key_def year_start_def year_end_def
        used_init_def dict_get_def minutes_to_days_def py_truediv_def py_int_sub_float_def
        raise_bind_def round_to_double_fortieth py_round2_fortieth
        sample_ledger_def mk_request_def sample_summary_def sample_today_def
        sample_defs auth_defs Let_def)

lemma summary_ledger_sample:
  "api_my_summary sample_interp sample_today (sample_employee 2) 2025 sample_ledger
     = (Inr (Json sample_summary), [])
   \<and> raise_bind (py_truediv (approved_minutes 2 2025 ''ANNUAL'' sample_ledger) 480) py_round2
       = Inr (Finite 12)
   \<and> sm_annual_granted sample_summary = 10
   \<and> sm_annual_remaining sample_summary = Finite (- 2)
   \<and> raise_bind (py_int_sub_float 10 (Finite 12)) py_round2 = Inr (Finite (- 2))"
proof -
  note ev = sample_ledger_summary
  from summary_ledger [OF ev] obtain eid where
    i: "current_employee_id (sample_employee 2) = Some eid"
    and a: "raise_bind (py_truediv (approved_minutes eid 2025 ''ANNUAL'' sample_ledger)
              (sm_workday_minutes sample_summary)) py_round2 = Inr (sm_annual_used sample_summary)"
    and r: "raise_bind (py_int_sub_float (sm_annual_granted sample_summary)
              (sm_annual_used sample_summary)) py_round2 = Inr (sm_annual_remaining sample_summary)"
    by blast
  from i have "eid = 2" by (simp add: sample_defs auth_defs)
  with a r ev show ?thesis by (simp add: sample_summary_def)
qed

section \<open>The window of the year\<close>

text \<open>
  The window of the source against the calendar year, for a well-formed timestamp: they
  differ on the last second of 31 December, of which the window holds the first instant only.
\<close>

lemma year_window_iff:
  assumes "1 \<le> dt_month t" and "dt_month t \<le> 12" and "1 \<le> dt_day t" and "dt_day t \<le> 31"
    and "0 \<le> dt_hour t" and "dt_hour t \<le> 23" and "0 \<le> dt_minute t" and "dt_minute t \<le> 59"
    and "0 \<le> dt_second t" and "dt_second t \<le> 59" and "0 \<le> dt_microsecond t"
  shows "(dt_le (year_start y) t \<and> dt_le t (year_end y)) =
           (dt_year t = y \<and> \<not> (dt_month t = 12 \<and> dt_day t = 31 \<and> dt_hour t = 23
              \<and> dt_minute t = 59 \<and> dt_second t = 59 \<and> 0 < dt_microsecond t))"
  using assms by (auto simp: dt_le_def dt_key_def year_start_def year_end_def)

text \<open>
  C3, where the code departs from it. The window of the source ends at 31 December
  23:59:59 with microsecond 0: an APPROVED request whose \<open>start_dt\<close> lies later within that
  last second of the year is not selected, and adds nothing to the minutes of its leave type,
  though it starts within the calendar year.
\<close>

theorem year_window_excludes_final_fraction:
  assumes "lr_start_dt r = \<lparr>dt_year = year, dt_month = 12, dt_day = 31, dt_hour = 23,
             dt_minute = 59, dt_second = 59, dt_microsecond = us\<rparr>"
    and "0 < us"
  shows "\<not> approved_in_year eid year r
       \<and> approved_minutes eid year c (d\<lparr>requests := requests d @ [r]\<rparr>)
           = approved_minutes eid year c d"
proof -
  have n: "\<not> approved_in_year eid year r"
    using assms by (simp add: approved_in_year_def dt_le_def dt_key_def year_end_def)
  have "leave_code (d\<lparr>requests := requests d @ [r]\<rparr>) = leave_code d"
    by (simp add: leave_code_def leave_type_row_def fun_eq_iff)
  then show ?thesis using n by (simp add: approved_minutes_def)
qed

theorem year_window_excludes_final_fraction_witness:
  "lr_start_dt late_request = \<lparr>dt_year = 2025, dt_month = 12, dt_day = 31, dt_hour = 23,
             dt_minute = 59, dt_second = 59, dt_microsecond = 500000\<rparr>
   \<and> lr_status late_request = ''APPROVED'' \<and> lr_employee_id late_request = 3
   \<and> lr_requested_minutes late_request = 480
   \<and> leave_code sample_late late_request = Some ''ANNUAL''
   \<and> \<not> approved_in_year 3 2025 late_request
   \<and> api_my_summary sample_interp sample_today (sample_employee 3) 2025 sample_late
       = (Inr (Json sample_late_summary), [])
   \<and> sm_annual_used sample_late_summary = Finite 0
   \<and> minutes_to_days 480 480 = Inr (Finite 1)"
proof -
  have s: "lr_start_dt late_request = \<lparr>dt_year = 2025, dt_month = 12, dt_day = 31, dt_hour = 23,
             dt_minute = 59, dt_second = 59, dt_microsecond = 500000\<rparr>"
    by (simp add: late_request_def mk_request_def)
  have f: "lr_status late_request = ''APPROVED''" "lr_employee_id late_request = 3"
    "lr_requested_minutes late_request = 480"
    by (simp_all add: late_request_def mk_request_def)
  have c: "leave_code sample_late late_request = Some ''ANNUAL''"
    by (simp add: leave_code_def leave_type_row_def sample_late_def late_request_def
          mk_request_def sample_defs)
  from year_window_excludes_final_fraction [OF s, of 3 "''ANNUAL''" sample_late]
  have n: "\<not> approved_in_year 3 2025 late_request" by simp
  have ev: "api_my_summary sample_interp sample_today (sample_employee 3) 2025 sample_late
       = (Inr (Json sample_late_summary), [])"
    using n f
    by (simp add: api_my_summary_def get_policy_def get_defs row_defs int64_def c_int_def
        policy_or_def py_int_samples final_def calculate_annual_leave_days_def
        used_init_def dict_get_def minutes_to_days_def py_truediv_def py_int_sub_float_def
        raise_bind_def sample_late_def sample_late_summary_def sample_today_def
        sample_defs auth_defs Let_def)
  have one: "minutes_to_days 480 480 = Inr (Finite 1)"
    by (simp add: minutes_to_days_def py_truediv_def raise_bind_def)
  show ?thesis using s f c n ev one by (simp add: sample_late_summary_def)
qed

section \<open>The workday length as a divisor\<close>

lemma minutes_to_days_zero: "minutes_to_days 0 m = Inl ZeroDivisionError"
  by (simp add: minutes_to_days_def py_truediv_def raise_bind_def)

lemma py_int_Nil: "py_int ip [] = None"
  by (simp add: py_int_def strip_def)

lemma used_loop_known:
  "list_all (\<lambda>r. leave_type_row (lr_leave_type_id r) d \<noteq> None) rs
     \<Longrightarrow> \<exists>u'. used_loop d rs u = Inr u'"
  by (induction rs arbitrary: u) auto

lemma summary_parse_error:
  assumes "require_employee s" and "current_employee_id s = Some eid" and "int64 eid"
    and "py_int ip (policy_or (fst (get_policy ''workday_minutes'' d)) ''480'') = None"
  shows "fst (api_my_summary ip today s year d) = Inl ValueError"
  using assms by (simp add: api_my_summary_def Let_def case_prod_beta get_defs)

lemma summary_parse_crashes:
  assumes "require_employee s"
    and "py_int ip (policy_or (fst (get_policy ''workday_minutes'' d)) ''480'') = None"
  shows "crashed (api_my_summary ip today s year d)"
  using assms
  by (simp add: api_my_summary_def Let_def case_prod_beta crashed_def
        split: option.splits sum.splits)

lemma summary_zero_crashes:
  assumes "require_employee s"
    and "py_int ip (policy_or (fst (get_policy ''workday_minutes'' d)) ''480'') = Some 0"
  shows "crashed (api_my_summary ip today s year d)"
  using assms
  by (simp add: api_my_summary_def Let_def case_prod_beta crashed_def minutes_to_days_zero
        raise_bind_def split: option.splits sum.splits)

lemma summary_zero_division:
  assumes "require_employee s"
    and "py_int ip (policy_or (fst (get_policy ''workday_minutes'' d)) ''480'') = Some 0"
    and "current_employee_id s = Some eid" and "get_employee eid d = Inr (Some e)"
    and "1 \<le> year" and "year \<le> 9999"
    and "py_int ip (policy_or (fst (get_policy ''sick_default_days'' d)) ''10'') \<noteq> None"
    and "types_known d"
  shows "fst (api_my_summary ip today s year d) = Inl ZeroDivisionError"
proof -
  define d1 where "d1 = final d (snd (get_policy ''workday_minutes'' d))"
  define d2 where "d2 = final d1 (snd (get_policy ''sick_default_days'' d1))"
  have rq: "requests d2 = requests d" and lt: "leave_types d2 = leave_types d"
    unfolding d2_def d1_def by (simp_all add: get_policy_final)
  obtain sg where sg: "py_int ip (policy_or (fst (get_policy ''sick_default_days'' d1)) ''10'') = Some sg"
    using assms(7) unfolding d1_def by (auto simp: get_policy_other_key)
  have "list_all (\<lambda>r. leave_type_row (lr_leave_type_id r) d2 \<noteq> None)
          (filter (approved_in_year (emp_id e) year) (requests d2))"
    using assms(8) unfolding types_known_def rq
    by (simp add: list_all_iff leave_type_row_def lt)
  then obtain u where
    u: "used_loop d2 (filter (approved_in_year (emp_id e) year) (requests d2)) used_init = Inr u"
    using used_loop_known by blast
  have y: "c_int year" using assms(5,6) by (simp add: c_int_def)
  show ?thesis
    using assms(1-6) sg u y
    by (simp add: api_my_summary_def Let_def case_prod_beta d1_def [symmetric]
          d2_def [symmetric] minutes_to_days_zero raise_bind_def)
qed

text \<open>
  C10, as amended. For an employee's call, under every interpreter: when the stored
  \<open>workday_minutes\<close> value is non-empty and \<open>int\<close> rejects it, the summary raises
  \<open>ValueError\<close>, the employee id of the session fitting the 64 bits of the store; when the
  value parses as 0 the summary raises, and the exception is \<open>ZeroDivisionError\<close> once the
  employee row, the year, the sick-days policy and the leave types of the requests are in
  order. So a call that returns has a stored value that is empty, and then 480 is used, or
  parses as a nonzero integer.
\<close>

theorem summary_workday_minutes_unguarded:
  assumes "require_employee s"
  shows "(fst (get_policy ''workday_minutes'' d) \<noteq> []
            \<and> py_int ip (fst (get_policy ''workday_minutes'' d)) = None
            \<and> current_employee_id s = Some eid \<and> int64 eid
          \<longrightarrow> fst (api_my_summary ip today s year d) = Inl ValueError)
       \<and> (py_int ip (fst (get_policy ''workday_minutes'' d)) = Some 0
          \<longrightarrow> crashed (api_my_summary ip today s year d))
       \<and> (py_int ip (fst (get_policy ''workday_minutes'' d)) = Some 0
            \<and> current_employee_id s = Some eid \<and> get_employee eid d = Inr (Some e)
            \<and> 1 \<le> year \<and> year \<le> 9999
            \<and> py_int ip (policy_or (fst (get_policy ''sick_default_days'' d)) ''10'') \<noteq> None
            \<and> types_known d
          \<longrightarrow> fst (api_my_summary ip today s year d) = Inl ZeroDivisionError)
       \<and> (\<not> crashed (api_my_summary ip today s year d)
          \<longrightarrow> fst (get_policy ''workday_minutes'' d) = []
              \<or> (\<exists>w. py_int ip (fst (get_policy ''workday_minutes'' d)) = Some w \<and> w \<noteq> 0))
       \<and> (fst (get_policy ''workday_minutes'' d) = []
          \<longrightarrow> py_int ip (policy_or (fst (get_policy ''workday_minutes'' d)) ''480'') = Some 480)"
proof -
  let ?wv = "fst (get_policy ''workday_minutes'' d)"
  let ?res = "api_my_summary ip today s year d"
  have por: "?wv \<noteq> [] \<Longrightarrow> policy_or ?wv ''480'' = ?wv" by (simp add: policy_or_def)
  have z: "py_int ip ?wv = Some 0 \<Longrightarrow> policy_or ?wv ''480'' = ?wv"
    using por py_int_Nil [of ip] by fastforce
  have c1: "?wv \<noteq> [] \<and> py_int ip ?wv = None \<and> current_employee_id s = Some eid \<and> int64 eid
          \<longrightarrow> fst ?res = Inl ValueError"
    using summary_parse_error [OF assms, of eid ip d today year] por by simp
  have c2: "py_int ip ?wv = Some 0 \<longrightarrow> crashed ?res"
    using summary_zero_crashes [OF assms, of ip d today year] z by simp
  have c3: "py_int ip ?wv = Some 0
            \<and> current_employee_id s = Some eid \<and> get_employee eid d = Inr (Some e)
            \<and> 1 \<le> year \<and> year \<le> 9999
            \<and> py_int ip (policy_or (fst (get_policy ''sick_default_days'' d)) ''10'') \<noteq> None
            \<and> types_known d
          \<longrightarrow> fst ?res = Inl ZeroDivisionError"
    using summary_zero_division [OF assms, of ip d eid e year today] z by simp
  have c1': "?wv \<noteq> [] \<and> py_int ip ?wv = None \<longrightarrow> crashed ?res"
    using summary_parse_crashes [OF assms, of ip d today year] por by simp
  have c4: "\<not> crashed ?res \<longrightarrow> ?wv = [] \<or> (\<exists>w. py_int ip ?wv = Some w \<and> w \<noteq> 0)"
    using c1' c2 by (cases "py_int ip ?wv") auto
  have c5: "?wv = [] \<longrightarrow> py_int ip (policy_or ?wv ''480'') = Some 480"
    by (simp add: policy_or_def py_int_samples)
  from c1 c2 c3 c4 c5 show ?thesis by blast
qed

lemma sample_zero_facts:
  "require_employee (sample_employee 3)"
  "fst (get_policy ''workday_minutes'' sample_zero) = ''0''"
  "current_employee_id (sample_employee 3) = Some 3"
  "get_employee 3 sample_zero = Inr (Some \<lparr>emp_id = 3, emp_name = ''Park'',
     emp_department = ''HR'', emp_position = ''Manager'',
     emp_join_date = \<lparr>d_year = 2021, d_month = 7, d_day = 1\<rparr>, emp_is_active = True\<rparr>)"
  "py_int ip (policy_or (fst (get_policy ''sick_default_days'' sample_zero)) ''10'') \<noteq> None"
  "types_known sample_zero"
  "int64 3"
  by (simp_all add: get_policy_def get_defs row_defs int64_def types_known_def
        policy_or_def py_int_samples sample_zero_def sample_defs auth_defs)

lemma sample_words_facts:
  "fst (get_policy ''workday_minutes'' sample_words) = ''eight''"
  by (simp add: get_policy_def sample_words_def sample_defs)

theorem summary_workday_minutes_unguarded_witness:
  "require_employee (sample_employee 3)
   \<and> current_employee_id (sample_employee 3) = Some 3 \<and> int64 3
   \<and> fst (get_policy ''workday_minutes'' sample_zero) = ''0''
   \<and> py_int sample_interp ''0'' = Some 0
   \<and> fst (api_my_summary sample_interp sample_today (sample_employee 3) 2025 sample_zero)
       = Inl ZeroDivisionError
   \<and> fst (get_policy ''workday_minutes'' sample_words) = ''eight''
   \<and> py_int sample_interp ''eight'' = None
   \<and> fst (api_my_summary sample_interp sample_today (sample_employee 3) 2025 sample_words)
       = Inl ValueError"
proof -
  note z = summary_workday_minutes_unguarded
    [OF sample_zero_facts(1), where d = sample_zero and today = sample_today and year = 2025
       and eid = 3 and ip = sample_interp
       and e = "\<lparr>emp_id = 3, emp_name = ''Park'', emp_department = ''HR'',
     emp_position = ''Manager'', emp_join_date = \<lparr>d_year = 2021, d_month = 7, d_day = 1\<rparr>,
     emp_is_active = True\<rparr>"]
  note w = summary_workday_minutes_unguarded
    [OF sample_zero_facts(1), where d = sample_words and today = sample_today and year = 2025
       and eid = 3 and ip = sample_interp]
  have a: "fst (api_my_summary sample_interp sample_today (sample_employee 3) 2025 sample_zero)
             = Inl ZeroDivisionError"
    using z sample_zero_facts by (simp add: py_int_samples)
  have b: "fst (api_my_summary sample_interp sample_today (sample_employee 3) 2025 sample_words)
             = Inl ValueError"
    using w sample_words_facts sample_zero_facts(3,7) by (simp add: py_int_samples)
  show ?thesis
    using a b sample_zero_facts(1,2,3,7) sample_words_facts by (simp add: py_int_samples)
qed

text \<open>
  C10 as stated fails at the empty string: it is a stored value that \<open>int\<close> rejects, yet
  the handler replaces it by 480 and returns a summary.
\<close>

theorem summary_blank_workday_counterexample:
  "fst (get_policy ''workday_minutes'' sample_blank) = []
   \<and> py_int sample_interp [] = None
   \<and> require_employee (sample_employee 3)
   \<and> api_my_summary sample_interp sample_today (sample_employee 3) 2025 sample_blank
       = (Inr (Json sample_blank_summary), [])"
  by (simp add: api_my_summary_def get_policy_def get_defs row_defs int64_def c_int_def
        policy_or_def py_int_samples final_def calculate_annual_leave_days_def
        approved_in_year_def dt_le_def dt_key_def year_start_def year_end_def
        used_init_def dict_get_def minutes_to_days_def py_truediv_def py_int_sub_float_def
        raise_bind_def sample_blank_def sample_blank_summary_def sample_today_def
        sample_defs auth_defs Let_def)

end
